(* ===== verification/Prelude.thy ===== *)
theory Prelude
  imports Main "HOL-Library.Word" "HOL-Library.Char_ord" "HOL-Library.List_Lexorder"
begin

text \<open>
  Shared vocabulary of the development: the types that name the model's data (bytes,
  microsecond timestamps), the collections of rewrite rules the component theories
  fill and use, and generic lemmas on bytes and lists that several components need.
  Nothing here models code of the repository.
\<close>

unbundle bit_operations_syntax

section \<open>Types of the model\<close>

text \<open>
  A Python \<open>bytes\<close> object is a list of 8-bit words. A Python \<open>str\<close> is an Isabelle
  \<open>string\<close>: its characters are the code points 0 to 255 (Latin-1), which covers every
  string the repository handles (HTTP header values are decoded as Latin-1 by the
  server). A \<open>datetime\<close> is its distance from the epoch in microseconds, a
  \<open>timedelta\<close> a number of microseconds.
\<close>

type_synonym byte = "8 word"
type_synonym bytes = "byte list"
type_synonym usec = int

definition usec_per_sec :: int where
  "usec_per_sec = 1000000"

section \<open>Rule collections\<close>

named_theorems byte_simps "bit-level identities on single bytes"
named_theorems codec_simps "evaluation rules of the encoders and decoders"

section \<open>Bytes\<close>

text \<open>Two bytes are equal when their eight bits are; the bits above 7 are all zero.\<close>

lemma byte_bit_high [simp, byte_simps]: "8 \<le> n \<Longrightarrow> \<not> bit (w :: byte) n"
  by (auto dest: bit_imp_le_length)

lemma byte_eqI:
  fixes a b :: byte
  assumes "bit a 0 = bit b 0" "bit a 1 = bit b 1" "bit a 2 = bit b 2" "bit a 3 = bit b 3"
    "bit a 4 = bit b 4" "bit a 5 = bit b 5" "bit a 6 = bit b 6" "bit a 7 = bit b 7"
  shows "a = b"
proof (rule bit_word_eqI)
  fix n
  assume "n < LENGTH(8)"
  then have "n = 0 \<or> n = 1 \<or> n = 2 \<or> n = 3 \<or> n = 4 \<or> n = 5 \<or> n = 6 \<or> n = 7"
    by auto
  with assms show "bit a n = bit b n"
    by auto
qed

lemma unat_byte_of_nat: "m < 256 \<Longrightarrow> unat (word_of_nat m :: byte) = m"
  by (simp add: unat_of_nat)

section \<open>Lists\<close>

section \<open>Characters\<close>

lemma char_of_eqI: "of_char c = (n::nat) \<Longrightarrow> char_of n = c"
  by (metis char_of_char)

lemma replicate_2: "replicate 2 x = [x, x]"
  by (simp add: numeral_2_eq_2)

lemma map_of_rev_append_hd:
  "map_of (rev (xs @ [(k, v)])) k = Some v"
  by simp

end
