(* ===== verification/PyBuiltins.thy ===== *)
theory PyBuiltins
  imports Prelude
begin

text \<open>
  The Python built-in operations the repository's code relies on, written as CPython
  computes them: list and tuple slicing (\<open>PySlice_AdjustIndices\<close>), \<open>str(int)\<close>,
  \<open>int(str)\<close>, UTF-8 encoding and decoding, \<open>bytes.split\<close> and \<open>bytes.rsplit\<close> with
  a limit of one, \<open>str.partition\<close>, \<open>str.lower\<close> and the truth value of an optional
  string. Each comes with the facts the components use: slicing against \<open>take\<close> and
  \<open>drop\<close>, the decimal round trip, the UTF-8 round trip and the split laws.
\<close>

section \<open>Slicing: \<open>seq[start:stop]\<close>\<close>

text \<open>
  CPython clamps each bound into \<open>[0, len]\<close>, counting a negative bound from the end,
  and yields the elements between the clamped bounds (none when they cross).
\<close>

definition py_slice_index :: "int \<Rightarrow> int \<Rightarrow> int" where
  "py_slice_index n i = (if i < 0 then max 0 (i + n) else min i n)"

definition py_slice :: "'a list \<Rightarrow> int \<Rightarrow> int \<Rightarrow> 'a list" where
  "py_slice xs start stop =
     (let n = int (length xs);
          a = py_slice_index n start;
          b = py_slice_index n stop
      in take (nat (b - a)) (drop (nat a) xs))"

lemma py_slice_nonneg:
  assumes "0 \<le> start" "0 \<le> len"
  shows "py_slice xs start (start + len) = take (nat len) (drop (nat start) xs)"
proof (cases "start \<le> int (length xs)")
  case True
  have "nat (min (start + len) (int (length xs)) - start) = min (nat len) (length xs - nat start)"
    using assms True by linarith
  with assms True show ?thesis
    by (simp add: py_slice_def py_slice_index_def min_def)
next
  case False
  with assms show ?thesis
    by (simp add: py_slice_def py_slice_index_def)
qed

lemma length_py_slice_le: "0 \<le> len \<Longrightarrow> length (py_slice xs start (start + len)) \<le> nat len"
  by (auto simp: py_slice_def py_slice_index_def Let_def)

section \<open>Decimal strings: \<open>str(int)\<close> and \<open>int(str)\<close>\<close>

fun digits_of_nat :: "nat \<Rightarrow> string" where
  "digits_of_nat n =
     (if n < 10 then [char_of (48 + n)] else digits_of_nat (n div 10) @ [char_of (48 + n mod 10)])"

declare digits_of_nat.simps [simp del]

definition str_of_int :: "int \<Rightarrow> string" where
  "str_of_int i = (if i < 0 then CHR ''-'' # digits_of_nat (nat (- i)) else digits_of_nat (nat i))"

definition is_digit :: "char \<Rightarrow> bool" where
  "is_digit c \<longleftrightarrow> CHR ''0'' \<le> c \<and> c \<le> CHR ''9''"

definition nat_of_digits :: "string \<Rightarrow> nat" where
  "nat_of_digits s = foldl (\<lambda>acc c. 10 * acc + (of_char c - 48)) 0 s"

lemma nat_of_digits_snoc [simp]:
  "nat_of_digits (s @ [c]) = 10 * nat_of_digits s + (of_char c - 48)"
  by (simp add: nat_of_digits_def)

lemma of_char_digit: "(d::nat) < 10 \<Longrightarrow> of_char (char_of (48 + d) :: char) = (48 + d :: nat)"
  by (simp add: of_char_of)

lemma is_digit_char_of: "(d::nat) < 10 \<Longrightarrow> is_digit (char_of (48 + d))"
  by (simp add: is_digit_def less_eq_char_def of_char_digit)

lemma char_of_digit_eq_0: "(d::nat) < 10 \<Longrightarrow> char_of (48 + d) = CHR ''0'' \<longleftrightarrow> d = 0"
proof
  assume "d < 10" "char_of (48 + d) = CHR ''0''"
  then have "of_char (char_of (48 + d)) = (of_char (CHR ''0'') :: nat)"
    by simp
  with \<open>d < 10\<close> show "d = 0"
    by (simp add: of_char_digit)
next
  assume "d = 0"
  then show "char_of (48 + d) = CHR ''0''"
    by (simp add: char_of_eqI)
qed

lemma digits_of_nat_correct:
  "digits_of_nat n \<noteq> [] \<and> list_all is_digit (digits_of_nat n) \<and> nat_of_digits (digits_of_nat n) = n"
proof (induction n rule: digits_of_nat.induct)
  case (1 n)
  show ?case
  proof (cases "n < 10")
    case True
    then show ?thesis
      by (simp add: digits_of_nat.simps [of n] is_digit_char_of nat_of_digits_def of_char_digit)
  next
    case False
    with "1.IH" show ?thesis
      by (simp add: digits_of_nat.simps [of n] is_digit_char_of of_char_digit)
  qed
qed

text \<open>
  \<open>int(s)\<close> strips surrounding whitespace, reads an optional sign and then decimal
  digits; anything else is a \<open>ValueError\<close> (\<open>None\<close>). Underscores between digits and
  non-ASCII decimal digits, which CPython also accepts, do not occur in this model.
\<close>

definition py_isspace :: "char \<Rightarrow> bool" where
  "py_isspace c \<longleftrightarrow> (let n = of_char c :: nat in
     (9 \<le> n \<and> n \<le> 13) \<or> (28 \<le> n \<and> n \<le> 32) \<or> n = 133 \<or> n = 160)"

definition py_strip :: "string \<Rightarrow> string" where
  "py_strip s = rev (dropWhile py_isspace (rev (dropWhile py_isspace s)))"

definition py_int_of_str :: "string \<Rightarrow> int option" where
  "py_int_of_str s =
     (let t = py_strip s;
          (sgn, ds) = (case t of c # r \<Rightarrow> if c = CHR ''-'' then (-1, r)
                                         else if c = CHR ''+'' then (1, r) else (1, t)
                      | [] \<Rightarrow> (1, []))
      in if ds \<noteq> [] \<and> list_all is_digit ds then Some (sgn * int (nat_of_digits ds)) else None)"

lemma py_strip_digits: "list_all is_digit s \<Longrightarrow> py_strip s = s"
proof -
  assume d: "list_all is_digit s"
  have nsp: "\<not> py_isspace c" if "is_digit c" for c
    using that by (auto simp: is_digit_def py_isspace_def less_eq_char_def)
  have "dropWhile py_isspace s = s"
    using d by (cases s) (auto simp: nsp)
  moreover have "dropWhile py_isspace (rev s) = rev s"
    using d by (cases "rev s") (auto simp: nsp dest: arg_cong[where f = set] simp: list_all_iff)
  ultimately show ?thesis by (simp add: py_strip_def)
qed

lemma py_strip_id:
  "s = [] \<or> (\<not> py_isspace (hd s) \<and> \<not> py_isspace (last s)) \<Longrightarrow> py_strip s = s"
proof (cases "s = []")
  case False
  moreover assume "s = [] \<or> (\<not> py_isspace (hd s) \<and> \<not> py_isspace (last s))"
  ultimately have "dropWhile py_isspace s = s" "dropWhile py_isspace (rev s) = rev s"
    by (simp_all add: dropWhile_eq_self_iff hd_rev)
  then show ?thesis
    by (simp add: py_strip_def)
qed (simp add: py_strip_def)

lemma digit_not_space: "is_digit c \<Longrightarrow> \<not> py_isspace c"
  by (auto simp: is_digit_def py_isspace_def less_eq_char_def)

text \<open>The decimal round trip: \<open>int(str(i)) == i\<close>.\<close>

lemma py_int_of_str_of_int: "py_int_of_str (str_of_int i) = Some i"
proof -
  define ds where "ds = digits_of_nat (nat \<bar>i\<bar>)"
  have ds: "ds \<noteq> []" "list_all is_digit ds" "nat_of_digits ds = nat \<bar>i\<bar>"
    using digits_of_nat_correct [of "nat \<bar>i\<bar>"] by (simp_all add: ds_def)
  then have hd_last: "is_digit (hd ds)" "is_digit (last ds)"
    by (auto simp: list_all_iff)
  have hd_sign: "hd ds \<noteq> CHR ''-''" "hd ds \<noteq> CHR ''+''"
    using hd_last(1) by (auto simp: is_digit_def less_eq_char_def)
  show ?thesis
  proof (cases "i < 0")
    case True
    have "py_strip (CHR ''-'' # ds) = CHR ''-'' # ds"
      using ds(1) hd_last(2) digit_not_space by (intro py_strip_id) (simp add: py_isspace_def)
    with True ds show ?thesis
      by (simp add: py_int_of_str_def str_of_int_def ds_def)
  next
    case False
    have "py_strip ds = ds"
      using hd_last digit_not_space by (intro py_strip_id) simp
    moreover obtain c r where "ds = c # r"
      using ds(1) by (cases ds) auto
    ultimately show ?thesis
      using False ds hd_sign by (simp add: py_int_of_str_def str_of_int_def ds_def)
  qed
qed

section \<open>UTF-8\<close>

text \<open>
  \<open>str.encode("utf-8")\<close> on code points below 256: one byte below 128, two bytes
  otherwise. \<open>bytes.decode("utf-8")\<close> is its partial inverse; it fails (\<open>None\<close>, a
  \<open>UnicodeDecodeError\<close>) on invalid input, and also on valid sequences for code points
  above 255, which no string of this model contains.
\<close>

fun utf8_encode :: "string \<Rightarrow> bytes" where
  "utf8_encode [] = []"
| "utf8_encode (c # cs) =
     (let n = of_char c :: nat in
      if n < 128 then word_of_nat n # utf8_encode cs
      else word_of_nat (192 + n div 64) # word_of_nat (128 + n mod 64) # utf8_encode cs)"

fun utf8_decode :: "bytes \<Rightarrow> string option" where
  "utf8_decode [] = Some []"
| "utf8_decode (b # bs) =
     (if unat b < 128 then map_option (Cons (char_of (unat b))) (utf8_decode bs)
      else if unat b = 194 \<or> unat b = 195 then
        (case bs of
           [] \<Rightarrow> None
         | b2 # bs' \<Rightarrow>
             if 128 \<le> unat b2 \<and> unat b2 < 192
             then map_option (Cons (char_of ((unat b - 192) * 64 + (unat b2 - 128)))) (utf8_decode bs')
             else None)
      else None)"

lemma utf8_decode_encode [codec_simps]: "utf8_decode (utf8_encode s) = Some s"
proof (induction s)
  case Nil
  then show ?case by simp
next
  case (Cons c cs)
  define n where "n = (of_char c :: nat)"
  have n256: "n < 256"
    using nat_of_char_less_256[of c] by (simp add: n_def)
  have cn: "char_of n = c"
    by (simp add: n_def)
  show ?case
  proof (cases "n < 128")
    case True
    then show ?thesis
      using Cons.IH cn by (simp add: n_def [symmetric] unat_of_nat)
  next
    case False
    then have hi: "n div 64 < 4" "2 \<le> n div 64" and lo: "n mod 64 < 64"
      using n256 by auto
    define hb where "hb = (word_of_nat (192 + n div 64) :: byte)"
    define lb where "lb = (word_of_nat (128 + n mod 64) :: byte)"
    have enc: "utf8_encode (c # cs) = hb # lb # utf8_encode cs"
      using False by (simp add: hb_def lb_def n_def [symmetric])
    have u1: "unat hb = 192 + n div 64"
      unfolding hb_def using hi by (intro unat_byte_of_nat) simp
    have u2: "unat lb = 128 + n mod 64"
      unfolding lb_def using lo by (intro unat_byte_of_nat) simp
    have lead: "192 + n div 64 = 194 \<or> 192 + n div 64 = 195"
      using hi False n256 by linarith
    have cp: "(192 + n div 64 - 192) * 64 + (128 + n mod 64 - 128) = n"
      by simp
    have "utf8_decode (hb # lb # utf8_encode cs) = Some (c # cs)"
      using lead Cons.IH cn by (simp only: utf8_decode.simps u1 u2 cp) (simp add: u2)
    with enc show ?thesis by simp
  qed
qed

lemma utf8_encode_ascii:
  "list_all (\<lambda>c. of_char c < (128::nat)) s \<Longrightarrow> utf8_encode s = map (\<lambda>c. word_of_nat (of_char c)) s"
  by (induction s) auto

section \<open>Splitting at a separator\<close>

text \<open>
  \<open>a, b = x.split(sep, 1)\<close> and \<open>a, b = x.rsplit(sep, 1)\<close> with a one-element
  separator: the parts before and after its first (last) occurrence; unpacking fails
  (\<open>None\<close>) when the separator does not occur.
\<close>

fun split_once :: "'a \<Rightarrow> 'a list \<Rightarrow> ('a list \<times> 'a list) option" where
  "split_once d [] = None"
| "split_once d (x # xs) =
     (if x = d then Some ([], xs) else map_option (\<lambda>(a, b). (x # a, b)) (split_once d xs))"

definition rsplit_once :: "'a \<Rightarrow> 'a list \<Rightarrow> ('a list \<times> 'a list) option" where
  "rsplit_once d xs = map_option (\<lambda>(a, b). (rev b, rev a)) (split_once d (rev xs))"

lemma split_once_append [simp]:
  "d \<notin> set a \<Longrightarrow> split_once d (a @ d # b) = Some (a, b)"
  by (induction a) auto

lemma split_once_None_iff: "split_once d xs = None \<longleftrightarrow> d \<notin> set xs"
  by (induction xs) auto

lemma rsplit_once_append [simp]:
  "d \<notin> set b \<Longrightarrow> rsplit_once d (a @ d # b) = Some (a, b)"
  by (simp add: rsplit_once_def)

lemma rsplit_once_None_iff: "rsplit_once d xs = None \<longleftrightarrow> d \<notin> set xs"
  by (simp add: rsplit_once_def split_once_None_iff)

text \<open>\<open>str.partition(sep)\<close>: head, separator and tail, or the whole string and two empties.\<close>

definition str_partition :: "char \<Rightarrow> string \<Rightarrow> string \<times> string \<times> string" where
  "str_partition d s = (case split_once d s of None \<Rightarrow> (s, [], []) | Some (a, b) \<Rightarrow> (a, [d], b))"

text \<open>\<open>a in s\<close> for two strings: \<open>a\<close> occurs in \<open>s\<close> as a substring.\<close>

definition py_str_in :: "string \<Rightarrow> string \<Rightarrow> bool" where
  "py_str_in a s \<longleftrightarrow> list_ex (\<lambda>i. take (length a) (drop i s) = a) [0..<Suc (length s)]"

lemma py_str_in_refl [simp]: "py_str_in s s"
  by (auto simp: py_str_in_def list_ex_iff intro: bexI [of _ 0])

section \<open>Case and truth\<close>

text \<open>\<open>str.lower()\<close> on Latin-1: \<open>A\<close>..\<open>Z\<close> and \<open>\<Agrave>\<close>..\<open>\<THORN>\<close> but \<open>\<times>\<close> move up by 32.\<close>

definition py_lower_char :: "char \<Rightarrow> char" where
  "py_lower_char c = (let n = of_char c :: nat in
     if (65 \<le> n \<and> n \<le> 90) \<or> (192 \<le> n \<and> n \<le> 222 \<and> n \<noteq> 215) then char_of (n + 32) else c)"

definition py_lower :: "string \<Rightarrow> string" where
  "py_lower s = map py_lower_char s"

text \<open>The truth value of an \<open>Optional[str]\<close>: \<open>None\<close> and \<open>""\<close> are false.\<close>

definition py_truthy_str :: "string option \<Rightarrow> bool" where
  "py_truthy_str q \<longleftrightarrow> q \<noteq> None \<and> q \<noteq> Some []"

end
