(* ===== verification/Base64.thy ===== *)
theory Base64
  imports PyBuiltins
begin

text \<open>
  Base64 as the token codec uses it. python-jose encodes every token segment with
  \<open>jose.utils.base64url_encode\<close> (\<open>base64.urlsafe_b64encode\<close>, then every \<open>=\<close> removed)
  and decodes it with \<open>jose.utils.base64url_decode\<close> (pad with \<open>=\<close> to a multiple of
  four, then \<open>base64.urlsafe_b64decode\<close>). Those call CPython's \<open>binascii.b2a_base64\<close>
  and \<open>binascii.a2b_base64\<close> in non-strict mode. The decoder is modelled as the C loop
  is written (CPython 3.11 and later): a state of quad position, left-over bits, pad count
  and output, one step per input byte, characters outside the alphabet skipped, a pad
  sequence ending the input, and the two errors at the end. The encoder is the C loop
  unrolled to groups of three bytes.
\<close>

unbundle bit_operations_syntax

section \<open>The alphabet\<close>

definition b64_alphabet :: string where
  "b64_alphabet = ''ABCDEFGHIJKLMNOPQRSTUVWXYZabcdefghijklmnopqrstuvwxyz0123456789+/''"

definition pad_byte :: byte where
  "pad_byte = 61"

text \<open>\<open>table_b2a_base64[this_ch]\<close>, the C code masking the index with \<open>0x3f\<close>.\<close>

definition b2a_char :: "byte \<Rightarrow> byte" where
  "b2a_char v = of_char (b64_alphabet ! unat (v AND 63))"

text \<open>\<open>table_a2b_base64\<close>: the value of an alphabet byte, \<open>None\<close> for the 255 entries.\<close>

definition a2b_table :: "byte \<Rightarrow> byte option" where
  "a2b_table c = (let n = unat c in
     if 65 \<le> n \<and> n \<le> 90 then Some (c - 65)
     else if 97 \<le> n \<and> n \<le> 122 then Some (c - 71)
     else if 48 \<le> n \<and> n \<le> 57 then Some (c + 4)
     else if n = 43 then Some 62
     else if n = 47 then Some 63
     else None)"

section \<open>Encoding: \<open>b2a_base64\<close>, \<open>urlsafe_b64encode\<close>, \<open>base64url_encode\<close>\<close>

fun b2a_base64 :: "bytes \<Rightarrow> bytes" where
  "b2a_base64 (a # b # c # rest) =
     [b2a_char (drop_bit 2 a), b2a_char (push_bit 4 (a AND 3) OR drop_bit 4 b),
      b2a_char (push_bit 2 (b AND 15) OR drop_bit 6 c), b2a_char c] @ b2a_base64 rest"
| "b2a_base64 [a, b] =
     [b2a_char (drop_bit 2 a), b2a_char (push_bit 4 (a AND 3) OR drop_bit 4 b),
      b2a_char (push_bit 2 (b AND 15)), pad_byte]"
| "b2a_base64 [a] = [b2a_char (drop_bit 2 a), b2a_char (push_bit 4 (a AND 3)), pad_byte, pad_byte]"
| "b2a_base64 [] = []"

definition urlsafe_encode_translate :: "byte \<Rightarrow> byte" where
  "urlsafe_encode_translate b = (if b = 43 then 45 else if b = 47 then 95 else b)"

definition urlsafe_b64encode :: "bytes \<Rightarrow> bytes" where
  "urlsafe_b64encode s = map urlsafe_encode_translate (b2a_base64 s)"

definition base64url_encode :: "bytes \<Rightarrow> bytes" where
  "base64url_encode s = filter (\<lambda>b. b \<noteq> pad_byte) (urlsafe_b64encode s)"

section \<open>Decoding: the \<open>a2b_base64\<close> loop\<close>

datatype binascii_error =
    ExcessDataChar   \<comment> \<open>"number of data characters cannot be 1 more than a multiple of 4"\<close>
  | IncorrectPadding \<comment> \<open>"Incorrect padding"\<close>

record a2b_state =
  quad_pos :: nat
  leftchar :: byte
  pads :: nat
  bin_data :: bytes

definition a2b_init :: a2b_state where
  "a2b_init = \<lparr>quad_pos = 0, leftchar = 0, pads = 0, bin_data = []\<rparr>"

text \<open>The \<open>switch (quad_pos)\<close> on a valid six-bit value.\<close>

definition a2b_sextet :: "a2b_state \<Rightarrow> byte \<Rightarrow> a2b_state" where
  "a2b_sextet st v =
     (case quad_pos st of
        0 \<Rightarrow> st\<lparr>quad_pos := 1, leftchar := v\<rparr>
      | Suc 0 \<Rightarrow> st\<lparr>quad_pos := 2, bin_data := bin_data st @ [push_bit 2 (leftchar st) OR drop_bit 4 v],
                    leftchar := v AND 15\<rparr>
      | Suc (Suc 0) \<Rightarrow> st\<lparr>quad_pos := 3, bin_data := bin_data st @ [push_bit 4 (leftchar st) OR drop_bit 2 v],
                          leftchar := v AND 3\<rparr>
      | _ \<Rightarrow> st\<lparr>quad_pos := 0, bin_data := bin_data st @ [push_bit 6 (leftchar st) OR v], leftchar := 0\<rparr>)"

text \<open>
  One iteration per input byte. A pad byte counts only from quad position 2 on
  (\<open>quad_pos >= 2 && quad_pos + ++pads >= 4\<close>, with C's short-circuit), and a complete
  pad sequence jumps to \<open>done\<close>, past the final check. A byte outside the alphabet is
  skipped; a valid one resets the pad count.
\<close>

fun a2b_loop :: "a2b_state \<Rightarrow> bytes \<Rightarrow> binascii_error + bytes" where
  "a2b_loop st [] =
     (if quad_pos st = 0 then Inr (bin_data st)
      else if quad_pos st = 1 then Inl ExcessDataChar
      else Inl IncorrectPadding)"
| "a2b_loop st (c # cs) =
     (if c = pad_byte then
        (if 2 \<le> quad_pos st then
           (if 4 \<le> quad_pos st + (pads st + 1) then Inr (bin_data st)
            else a2b_loop (st\<lparr>pads := pads st + 1\<rparr>) cs)
         else a2b_loop st cs)
      else
        (case a2b_table c of
           None \<Rightarrow> a2b_loop st cs
         | Some v \<Rightarrow> a2b_loop (a2b_sextet (st\<lparr>pads := 0\<rparr>) v) cs))"

definition a2b_base64 :: "bytes \<Rightarrow> binascii_error + bytes" where
  "a2b_base64 s = a2b_loop a2b_init s"

definition urlsafe_decode_translate :: "byte \<Rightarrow> byte" where
  "urlsafe_decode_translate b = (if b = 45 then 43 else if b = 95 then 47 else b)"

definition urlsafe_b64decode :: "bytes \<Rightarrow> binascii_error + bytes" where
  "urlsafe_b64decode s = a2b_base64 (map urlsafe_decode_translate s)"

text \<open>\<open>jose.utils.base64url_decode\<close>: \<open>rem = len(input) % 4; if rem > 0: input += b"=" * (4 - rem)\<close>.\<close>

definition b64url_pad :: "bytes \<Rightarrow> bytes" where
  "b64url_pad s = (let r = length s mod 4 in if 0 < r then s @ replicate (4 - r) pad_byte else s)"

definition base64url_decode :: "bytes \<Rightarrow> binascii_error + bytes" where
  "base64url_decode s = urlsafe_b64decode (b64url_pad s)"

text \<open>The last character of an encoded two-byte tail with its lowest, unused bit set.\<close>

definition b64_low_bit_variant :: "byte \<Rightarrow> byte" where
  "b64_low_bit_variant b = b2a_char (push_bit 2 (b AND 15) OR 1)"

text \<open>A byte the encoder may write into a token segment: ASCII, neither the space that
  ends the scheme of an \<open>Authorization\<close> header nor the dot that separates segments.\<close>

definition segment_byte :: "byte \<Rightarrow> bool" where
  "segment_byte b \<longleftrightarrow> unat b < 128 \<and> b \<noteq> 32 \<and> b \<noteq> 46"

section \<open>Alphabet facts\<close>

text \<open>The 64 alphabet bytes, checked one by one: the table inverts them, and none is a pad
  byte or one of the two bytes the URL-safe translation produces.\<close>

lemma alphabet_table:
  "k < 64 \<Longrightarrow> a2b_table (of_char (b64_alphabet ! k)) = Some (of_nat k)"
  by (simp add: less_Suc_eq numeral_eq_Suc del: One_nat_def, elim disjE)
     (simp_all add: a2b_table_def b64_alphabet_def)

lemma alphabet_not_special:
  "k < 64 \<Longrightarrow> (of_char (b64_alphabet ! k) :: byte) \<notin> {pad_byte, 45, 95}"
  by (simp add: less_Suc_eq numeral_eq_Suc del: One_nat_def, elim disjE)
     (simp_all add: b64_alphabet_def pad_byte_def)

lemma alphabet_ascii:
  "k < 64 \<Longrightarrow> segment_byte (of_char (b64_alphabet ! k))"
  by (simp add: less_Suc_eq numeral_eq_Suc del: One_nat_def, elim disjE)
     (simp_all add: b64_alphabet_def segment_byte_def)

lemma unat_and_63_less: "unat ((v :: byte) AND 63) < 64"
  using word_and_le1 [of v 63] by (simp add: word_le_nat_alt)

lemma a2b_table_b2a_char [codec_simps]: "a2b_table (b2a_char v) = Some (v AND 63)"
  using alphabet_table [OF unat_and_63_less] by (simp add: b2a_char_def)

lemma b2a_char_special: "b2a_char v \<noteq> pad_byte" "b2a_char v \<noteq> 45" "b2a_char v \<noteq> 95"
  using alphabet_not_special [OF unat_and_63_less, of v] by (simp_all add: b2a_char_def)

lemma urlsafe_translate_b2a_char [codec_simps]:
  "urlsafe_decode_translate (urlsafe_encode_translate (b2a_char v)) = b2a_char v"
  "urlsafe_encode_translate (b2a_char v) \<noteq> pad_byte"
  using b2a_char_special [of v]
  by (auto simp: urlsafe_decode_translate_def urlsafe_encode_translate_def pad_byte_def)

lemma urlsafe_encode_translate_pad_iff: "urlsafe_encode_translate c = pad_byte \<longleftrightarrow> c = pad_byte"
  by (auto simp: urlsafe_encode_translate_def pad_byte_def)

lemma pad_byte_translate [simp]:
  "urlsafe_encode_translate pad_byte = pad_byte" "urlsafe_decode_translate pad_byte = pad_byte"
  "a2b_table pad_byte = None"
  by (simp_all add: urlsafe_encode_translate_def urlsafe_decode_translate_def pad_byte_def a2b_table_def)

lemma b2a_char_ascii: "segment_byte (b2a_char v)"
  using alphabet_ascii [OF unat_and_63_less, of v] by (simp add: b2a_char_def)

lemma set_b2a_base64: "set (b2a_base64 s) \<subseteq> range b2a_char \<union> {pad_byte}"
  by (induction s rule: b2a_base64.induct) auto

text \<open>Every byte of an encoded segment is ASCII and none is a dot, which is what lets the
  token codec join segments with dots and split them again.\<close>

lemma translate_b2a_char_ascii:
  "segment_byte (urlsafe_encode_translate (b2a_char v))"
  using b2a_char_ascii [of v] by (auto simp: urlsafe_encode_translate_def segment_byte_def)

lemma base64url_encode_chars:
  "b \<in> set (base64url_encode s) \<Longrightarrow> \<exists>v. b = urlsafe_encode_translate (b2a_char v)"
proof -
  assume "b \<in> set (base64url_encode s)"
  then obtain c where c: "c \<in> set (b2a_base64 s)" "b = urlsafe_encode_translate c" "b \<noteq> pad_byte"
    by (auto simp: base64url_encode_def urlsafe_b64encode_def)
  with set_b2a_base64 [of s] show ?thesis
    by auto
qed

lemma base64url_encode_ascii: "b \<in> set (base64url_encode s) \<Longrightarrow> segment_byte b"
  using base64url_encode_chars translate_b2a_char_ascii by blast

section \<open>The decoder inverts the encoder\<close>

text \<open>
  Four valid characters from quad position 0 emit three bytes and return to quad
  position 0; a group ending in pad bytes emits one or two bytes and stops the loop.
\<close>

lemma a2b_loop_group:
  assumes "quad_pos st = 0"
  shows "a2b_loop st (b2a_char x0 # b2a_char x1 # b2a_char x2 # b2a_char x3 # rest) =
    a2b_loop (st\<lparr>quad_pos := 0, leftchar := 0, pads := 0, bin_data := bin_data st @
      [push_bit 2 (x0 AND 63) OR drop_bit 4 (x1 AND 63),
       push_bit 4 ((x1 AND 63) AND 15) OR drop_bit 2 (x2 AND 63),
       push_bit 6 ((x2 AND 63) AND 3) OR (x3 AND 63)]\<rparr>) rest"
  using assms by (cases st) (simp add: b2a_char_special codec_simps a2b_sextet_def)

lemma a2b_loop_tail2:
  assumes "quad_pos st = 0"
  shows "a2b_loop st (b2a_char x0 # b2a_char x1 # b2a_char x2 # pad_byte # rest) =
    Inr (bin_data st @ [push_bit 2 (x0 AND 63) OR drop_bit 4 (x1 AND 63),
                        push_bit 4 ((x1 AND 63) AND 15) OR drop_bit 2 (x2 AND 63)])"
  using assms by (simp add: b2a_char_special codec_simps a2b_sextet_def)

lemma a2b_loop_tail1:
  assumes "quad_pos st = 0"
  shows "a2b_loop st (b2a_char x0 # b2a_char x1 # pad_byte # pad_byte # rest) =
    Inr (bin_data st @ [push_bit 2 (x0 AND 63) OR drop_bit 4 (x1 AND 63)])"
  using assms by (simp add: b2a_char_special codec_simps a2b_sextet_def)

text \<open>How the six-bit values of a group reassemble into its bytes.\<close>

lemma b64_group_bytes [byte_simps]:
  fixes a b c :: byte
  shows "push_bit 2 (drop_bit 2 a AND 63) OR drop_bit 4 ((push_bit 4 (a AND 3) OR drop_bit 4 b) AND 63) = a"
    and "push_bit 4 (((push_bit 4 (a AND 3) OR drop_bit 4 b) AND 63) AND 15)
           OR drop_bit 2 ((push_bit 2 (b AND 15) OR drop_bit 6 c) AND 63) = b"
    and "push_bit 6 (((push_bit 2 (b AND 15) OR drop_bit 6 c) AND 63) AND 3) OR (c AND 63) = c"
    and "push_bit 2 (drop_bit 2 a AND 63) OR drop_bit 4 (push_bit 4 (a AND 3) AND 63) = a"
    and "push_bit 4 (((push_bit 4 (a AND 3) OR drop_bit 4 b) AND 63) AND 15)
           OR drop_bit 2 (push_bit 2 (b AND 15) AND 63) = b"
    and "push_bit 4 (((push_bit 4 (a AND 3) OR drop_bit 4 b) AND 63) AND 15)
           OR drop_bit 2 ((push_bit 2 (b AND 15) OR 1) AND 63) = b"
  by (rule byte_eqI; simp add: bit_simps)+

lemma a2b_loop_b2a_base64_prefix:
  assumes "quad_pos st = 0" "leftchar st = 0" "pads st = 0" "length xs mod 3 = 0"
  shows "a2b_loop st (b2a_base64 xs @ rest) = a2b_loop (st\<lparr>bin_data := bin_data st @ xs\<rparr>) rest"
  using assms
proof (induction xs arbitrary: st rule: b2a_base64.induct)
  case (1 a b c xs)
  then show ?case
    by (simp only: b2a_base64.simps append_Cons append_Nil a2b_loop_group b64_group_bytes;
        cases st; simp add: "1.IH")
next
  case 4
  then show ?case
    by simp
qed simp_all

lemma a2b_loop_b2a_base64:
  "quad_pos st = 0 \<Longrightarrow> a2b_loop st (b2a_base64 s) = Inr (bin_data st @ s)"
proof (induction s arbitrary: st rule: b2a_base64.induct)
  case (1 a b c rest)
  then show ?case
    by (simp only: b2a_base64.simps append_Cons append_Nil a2b_loop_group b64_group_bytes;
        simp add: "1.IH")
next
  case (2 a b)
  then show ?case
    by (simp only: b2a_base64.simps a2b_loop_tail2 b64_group_bytes; simp)
next
  case (3 a)
  then show ?case
    by (simp only: b2a_base64.simps a2b_loop_tail1 b64_group_bytes; simp)
next
  case 4
  then show ?case by simp
qed

lemma b64url_pad_Cons4:
  "b64url_pad (a # b # c # d # ys) = a # b # c # d # b64url_pad ys"
proof -
  have "length (a # b # c # d # ys) mod 4 = length ys mod 4"
    by simp
  then show ?thesis
    by (simp add: b64url_pad_def Let_def)
qed

lemma b64url_pad_encode:
  "map urlsafe_decode_translate (b64url_pad (base64url_encode s)) = b2a_base64 s"
proof (induction s rule: b2a_base64.induct)
  case (1 a b c rest)
  then show ?case
    by (simp add: base64url_encode_def urlsafe_b64encode_def codec_simps b64url_pad_Cons4)
next
  case (2 a b)
  then show ?case
    by (simp add: base64url_encode_def urlsafe_b64encode_def codec_simps b64url_pad_def)
next
  case (3 a)
  then show ?case
    by (simp add: base64url_encode_def urlsafe_b64encode_def codec_simps b64url_pad_def replicate_2)
next
  case 4
  then show ?case
    by (simp add: base64url_encode_def urlsafe_b64encode_def b64url_pad_def)
qed

lemma base64url_decode_encode [codec_simps]: "base64url_decode (base64url_encode s) = Inr s"
  using a2b_loop_b2a_base64 [of a2b_init s]
  by (simp add: base64url_decode_def urlsafe_b64decode_def a2b_base64_def b64url_pad_encode a2b_init_def)

section \<open>The decoder is not injective\<close>

text \<open>
  Non-strict \<open>a2b_base64\<close> drops the bits of the last six-bit value that do not fill a
  byte. When the input length is 2 modulo 3 the last character carries two such bits, so
  three other characters in its place decode to the same bytes.
\<close>

lemma b2a_base64_append:
  "length xs mod 3 = 0 \<Longrightarrow> b2a_base64 (xs @ ys) = b2a_base64 xs @ b2a_base64 ys"
proof (induction xs rule: b2a_base64.induct)
  case (1 a b c rest)
  then show ?case by simp
qed simp_all

lemma base64url_encode_split:
  assumes "length xs mod 3 = 0"
  shows "base64url_encode (xs @ [a, b]) = base64url_encode xs @
           map urlsafe_encode_translate
             [b2a_char (drop_bit 2 a), b2a_char (push_bit 4 (a AND 3) OR drop_bit 4 b),
              b2a_char (push_bit 2 (b AND 15))]"
  using assms
  by (simp add: base64url_encode_def urlsafe_b64encode_def b2a_base64_append codec_simps)

lemma b2a_base64_aligned:
  "length xs mod 3 = 0 \<Longrightarrow> length (b2a_base64 xs) mod 4 = 0 \<and> pad_byte \<notin> set (b2a_base64 xs)"
  by (induction xs rule: b2a_base64.induct)
     (simp_all add: b2a_char_special b2a_char_special(1) [THEN not_sym])

lemma b2a_base64_translate_id:
  "map (\<lambda>x. urlsafe_decode_translate (urlsafe_encode_translate x)) (b2a_base64 s) = b2a_base64 s"
  by (induction s rule: b2a_base64.induct) (simp_all add: codec_simps)

lemma base64url_encode_aligned:
  assumes "length xs mod 3 = 0"
  shows "base64url_encode xs = map urlsafe_encode_translate (b2a_base64 xs)"
proof -
  have "filter ((\<lambda>b. b \<noteq> pad_byte) \<circ> urlsafe_encode_translate) (b2a_base64 xs) = b2a_base64 xs"
    using b2a_base64_aligned [OF assms] by (intro filter_True) (auto simp: urlsafe_encode_translate_pad_iff)
  then show ?thesis
    by (simp add: base64url_encode_def urlsafe_b64encode_def filter_map)
qed

lemma b64_low_bit_variant_ne: "b2a_char (push_bit 2 (b AND 15)) \<noteq> b64_low_bit_variant b"
proof
  assume "b2a_char (push_bit 2 (b AND 15)) = b64_low_bit_variant b"
  then have "a2b_table (b2a_char (push_bit 2 (b AND 15))) = a2b_table (b64_low_bit_variant b)"
    by simp
  then have "push_bit 2 (b AND 15) AND 63 = (push_bit 2 (b AND 15) OR 1) AND (63 :: byte)"
    by (simp only: b64_low_bit_variant_def a2b_table_b2a_char option.inject)
  then have "bit (push_bit 2 (b AND 15) AND 63) 0 = bit ((push_bit 2 (b AND 15) OR 1) AND (63 :: byte)) 0"
    by (rule arg_cong)
  then show False
    by (simp add: bit_simps)
qed
lemma base64url_decode_not_injective:
  assumes "length s mod 3 = 2"
  shows "\<exists>t. t \<noteq> base64url_encode s \<and> base64url_decode t = Inr s \<and>
           (\<forall>x\<in>set t. segment_byte x)"
proof -
  obtain xs a b where s: "s = xs @ [a, b]"
    using assms by (cases s rule: rev_cases; cases "butlast s" rule: rev_cases) auto
  with assms have xs: "length xs mod 3 = 0"
    by simp presburger
  define c0 where "c0 = b2a_char (drop_bit 2 a)"
  define c1 where "c1 = b2a_char (push_bit 4 (a AND 3) OR drop_bit 4 b)"
  define t where "t = base64url_encode xs @ map urlsafe_encode_translate [c0, c1, b64_low_bit_variant b]"
  have enc: "base64url_encode s = base64url_encode xs @ map urlsafe_encode_translate
               [c0, c1, b2a_char (push_bit 2 (b AND 15))]"
    using xs unfolding s c0_def c1_def by (rule base64url_encode_split)
  have "urlsafe_encode_translate (b2a_char (push_bit 2 (b AND 15)))
               \<noteq> urlsafe_encode_translate (b64_low_bit_variant b)"
    using b64_low_bit_variant_ne [of b] urlsafe_translate_b2a_char(1)
    unfolding b64_low_bit_variant_def by metis
  then have neq: "t \<noteq> base64url_encode s"
    by (simp add: t_def enc)
  have len: "length (base64url_encode xs) mod 4 = 0"
    using b2a_base64_aligned [OF xs] by (simp add: base64url_encode_aligned [OF xs])
  have pad: "b64url_pad t = base64url_encode xs @ map urlsafe_encode_translate [c0, c1, b64_low_bit_variant b] @ [pad_byte]"
  proof -
    have "length t mod 4 = 3"
      using len by (simp add: t_def) presburger
    then show ?thesis
      by (simp add: b64url_pad_def t_def)
  qed
  have dec_prefix: "map urlsafe_decode_translate (base64url_encode xs) = b2a_base64 xs"
    using b2a_base64_aligned [OF xs] by (simp add: base64url_encode_aligned [OF xs] comp_def b2a_base64_translate_id)
  have "a2b_loop a2b_init (b2a_base64 xs @ [c0, c1, b64_low_bit_variant b, pad_byte]) = Inr (xs @ [a, b])"
    using xs
    by (simp only: a2b_loop_b2a_base64_prefix a2b_init_def c0_def c1_def b64_low_bit_variant_def
        a2b_state.select_convs a2b_state.update_convs a2b_loop_tail2 b64_group_bytes; simp)
  moreover have "map urlsafe_decode_translate (b64url_pad t) = b2a_base64 xs @ [c0, c1, b64_low_bit_variant b, pad_byte]"
    by (simp only: pad map_append dec_prefix list.map urlsafe_translate_b2a_char c0_def c1_def
        b64_low_bit_variant_def pad_byte_translate append_Cons append_Nil)
  ultimately have "base64url_decode t = Inr s"
    by (simp only: s base64url_decode_def urlsafe_b64decode_def a2b_base64_def)
  moreover have "\<forall>x\<in>set t. segment_byte x"
    using base64url_encode_ascii translate_b2a_char_ascii
    by (auto simp: t_def c0_def c1_def b64_low_bit_variant_def)
  ultimately show ?thesis
    using neq by blast
qed
end
