(* ===== verification/Json.thy ===== *)
theory Json
  imports PyBuiltins
begin

text \<open>
  The part of Python's \<open>json\<close> module the token codec relies on. python-jose writes
  the token header with \<open>json.dumps(header, separators=(",", ":"), sort_keys=True)\<close>
  and the claims with \<open>json.dumps(claims, separators=(",", ":"))\<close>, and reads both back
  with \<open>json.loads\<close>. Modelled: objects whose values are \<open>null\<close>, booleans, integers
  and strings (all the codec ever writes), the \<open>ensure_ascii\<close> string escaping of
  \<open>c_encode_basestring_ascii\<close>, and the scanner of \<open>_json.c\<close> for documents made of
  such an object or of one such value, with its whitespace, escapes, number syntax and
  "Extra data" check. A nested object or array, a float, \<open>NaN\<close>, \<open>Infinity\<close> and a
  \<open>\u\<close> escape of a code point above 255 are outside the model and read as a failed parse.
\<close>

section \<open>Values\<close>

datatype jvalue = JNull | JBool bool | JInt int | JStr string

text \<open>A parsed document: an object (a \<open>Mapping\<close>, its members in order) or a lone value.\<close>

datatype jdoc = JObject "(string \<times> jvalue) list" | JScalar jvalue

abbreviation quote_char :: char where "quote_char \<equiv> CHR 0x22"
abbreviation backslash_char :: char where "backslash_char \<equiv> CHR 0x5C"

text \<open>A dict built from the pairs: the last value of a repeated key wins.\<close>

definition json_lookup :: "(string \<times> jvalue) list \<Rightarrow> string \<Rightarrow> jvalue option" where
  "json_lookup kvs k = map_of (rev kvs) k"

section \<open>Encoding: \<open>json.dumps\<close>\<close>

definition hex_digit :: "nat \<Rightarrow> char" where
  "hex_digit n = (if n < 10 then char_of (48 + n) else char_of (87 + n))"

text \<open>\<open>c_encode_basestring_ascii\<close>: printable ASCII but quote and backslash as is, the five
  short escapes, every other code point as \<open>\u\<close> and four lower-case hex digits.\<close>

definition json_escape_char :: "char \<Rightarrow> string" where
  "json_escape_char c = (let n = of_char c :: nat in
     if c = quote_char then [backslash_char, quote_char]
     else if c = backslash_char then [backslash_char, backslash_char]
     else if n = 8 then [backslash_char, CHR ''b'']
     else if n = 12 then [backslash_char, CHR ''f'']
     else if n = 10 then [backslash_char, CHR ''n'']
     else if n = 13 then [backslash_char, CHR ''r'']
     else if n = 9 then [backslash_char, CHR ''t'']
     else if n < 32 \<or> 126 < n
       then [backslash_char, CHR ''u'', CHR ''0'', CHR ''0'', hex_digit (n div 16), hex_digit (n mod 16)]
     else [c])"

definition json_str :: "string \<Rightarrow> string" where
  "json_str s = quote_char # concat (map json_escape_char s) @ [quote_char]"

fun json_dumps_value :: "jvalue \<Rightarrow> string" where
  "json_dumps_value JNull = ''null''"
| "json_dumps_value (JBool b) = (if b then ''true'' else ''false'')"
| "json_dumps_value (JInt i) = str_of_int i"
| "json_dumps_value (JStr s) = json_str s"

definition json_member :: "string \<Rightarrow> jvalue \<Rightarrow> string" where
  "json_member k v = json_str k @ '':'' @ json_dumps_value v"

text \<open>The members joined by the item separator \<open>","\<close>, in the dict's order.\<close>

fun json_members :: "(string \<times> jvalue) list \<Rightarrow> string" where
  "json_members [] = []"
| "json_members [(k, v)] = json_member k v"
| "json_members ((k, v) # kvs) = json_member k v @ '','' @ json_members kvs"

definition json_dumps :: "(string \<times> jvalue) list \<Rightarrow> string" where
  "json_dumps kvs = ''{'' @ json_members kvs @ ''}''"

text \<open>\<open>sort_keys=True\<close>: the items sorted by key (\<open>sorted(dct.items())\<close>, keys being unique).\<close>

definition json_dumps_sorted :: "(string \<times> jvalue) list \<Rightarrow> string" where
  "json_dumps_sorted kvs = json_dumps (sort_key fst kvs)"

section \<open>Decoding: \<open>json.loads\<close>\<close>

text \<open>\<open>WHITESPACE = r'[ \t\n\r]*'\<close>.\<close>

definition json_ws :: "char \<Rightarrow> bool" where
  "json_ws c \<longleftrightarrow> c = CHR '' '' \<or> c = CHR 0x09 \<or> c = CHR 0x0A \<or> c = CHR 0x0D"

definition skip_ws :: "string \<Rightarrow> string" where
  "skip_ws s = dropWhile json_ws s"

definition hex_val :: "char \<Rightarrow> nat option" where
  "hex_val c = (let n = of_char c :: nat in
     if 48 \<le> n \<and> n \<le> 57 then Some (n - 48)
     else if 97 \<le> n \<and> n \<le> 102 then Some (n - 87)
     else if 65 \<le> n \<and> n \<le> 70 then Some (n - 55)
     else None)"

definition hex4 :: "char \<Rightarrow> char \<Rightarrow> char \<Rightarrow> char \<Rightarrow> nat option" where
  "hex4 a b c d =
     (case (hex_val a, hex_val b, hex_val c, hex_val d) of
        (Some w, Some x, Some y, Some z) \<Rightarrow> Some (((w * 16 + x) * 16 + y) * 16 + z)
      | _ \<Rightarrow> None)"

text \<open>The one-character escapes of \<open>scanstring\<close> and the characters they stand for.\<close>

definition json_simple_escape :: "char \<Rightarrow> char option" where
  "json_simple_escape e =
     (if e = quote_char \<or> e = backslash_char \<or> e = CHR ''/'' then Some e
      else if e = CHR ''b'' then Some (CHR 0x08)
      else if e = CHR ''f'' then Some (CHR 0x0C)
      else if e = CHR ''n'' then Some (CHR 0x0A)
      else if e = CHR ''r'' then Some (CHR 0x0D)
      else if e = CHR ''t'' then Some (CHR 0x09)
      else None)"

definition str_cons :: "char \<Rightarrow> (string \<times> string) option \<Rightarrow> (string \<times> string) option" where
  "str_cons c r = map_option (\<lambda>(s, rest). (c # s, rest)) r"

text \<open>
  \<open>scanstring\<close> in strict mode, from just after the opening quote: the decoded string
  and the input after the closing quote. An unterminated string, a raw control
  character, an unknown escape and a short or non-hex \<open>\u\<close> escape are errors.
\<close>

fun parse_str_body :: "string \<Rightarrow> (string \<times> string) option" where
  "parse_str_body [] = None"
| "parse_str_body (c # cs) =
     (if c = quote_char then Some ([], cs)
      else if c = backslash_char then
        (case cs of
           [] \<Rightarrow> None
         | e # r \<Rightarrow>
             (case json_simple_escape e of
                Some d \<Rightarrow> str_cons d (parse_str_body r)
              | None \<Rightarrow>
                  if e = CHR ''u'' then
                    (case r of
                       h1 # h2 # h3 # h4 # r' \<Rightarrow>
                         (case hex4 h1 h2 h3 h4 of
                            Some n \<Rightarrow> if n < 256 then str_cons (char_of n) (parse_str_body r') else None
                          | None \<Rightarrow> None)
                     | _ \<Rightarrow> None)
                  else None))
      else if of_char c < (32::nat) then None
      else str_cons c (parse_str_body cs))"

text \<open>
  \<open>NUMBER_RE = r'(-?(?:0|[1-9]\d*))(\.\d+)?([eE][-+]?\d+)?'\<close>: the integer part, and a
  float when a fraction or an exponent follows it.
\<close>

definition float_follows :: "string \<Rightarrow> bool" where
  "float_follows r =
     (case r of
        c # r' \<Rightarrow>
          (c = CHR ''.'' \<and> r' \<noteq> [] \<and> is_digit (hd r')) \<or>
          ((c = CHR ''e'' \<or> c = CHR ''E'') \<and>
             (case r' of
                s # r'' \<Rightarrow> is_digit s \<or> ((s = CHR ''+'' \<or> s = CHR ''-'') \<and> r'' \<noteq> [] \<and> is_digit (hd r''))
              | [] \<Rightarrow> False))
      | [] \<Rightarrow> False)"

definition parse_number :: "string \<Rightarrow> (jvalue \<times> string) option" where
  "parse_number s =
     (let (neg, r) = (case s of c # r' \<Rightarrow> if c = CHR ''-'' then (True, r') else (False, s) | [] \<Rightarrow> (False, []));
          (ds, rest) = (case r of
                          [] \<Rightarrow> ([], [])
                        | d # r' \<Rightarrow> if d = CHR ''0'' then ([d], r')
                                   else if is_digit d then (takeWhile is_digit r, dropWhile is_digit r)
                                   else ([], r))
      in if ds = [] \<or> float_follows rest then None
         else Some (JInt ((if neg then -1 else 1) * int (nat_of_digits ds)), rest))"

text \<open>\<open>scan_once\<close> on a value that is not an object or array.\<close>

definition parse_scalar :: "string \<Rightarrow> (jvalue \<times> string) option" where
  "parse_scalar s =
     (case s of
        [] \<Rightarrow> None
      | c # r \<Rightarrow>
          if c = quote_char then map_option (\<lambda>(x, rest). (JStr x, rest)) (parse_str_body r)
          else if take 4 s = ''null'' then Some (JNull, drop 4 s)
          else if take 4 s = ''true'' then Some (JBool True, drop 4 s)
          else if take 5 s = ''false'' then Some (JBool False, drop 5 s)
          else parse_number s)"

lemma length_skip_ws_le: "length (skip_ws s) \<le> length s"
  by (simp add: skip_ws_def length_dropWhile_le)

lemma str_cons_Some: "str_cons c r = Some (x, rest) \<longleftrightarrow> (\<exists>y. r = Some (y, rest) \<and> x = c # y)"
  by (cases r) (auto simp: str_cons_def)

lemma parse_str_body_shorter: "parse_str_body s = Some (x, r) \<Longrightarrow> length r < length s"
proof (induction s arbitrary: x rule: parse_str_body.induct)
  case 1
  then show ?case by simp
next
  case (2 c cs)
  note IH = "2.IH" and prem = "2.prems"
  show ?case
  proof (cases "c = quote_char \<or> c \<noteq> backslash_char")
    case True
    with prem show ?thesis
      by (auto simp: str_cons_Some split: if_splits dest: IH(3))
  next
    case False
    then have bs: "c = backslash_char" "c \<noteq> quote_char" by auto
    with prem obtain e r0 where cs: "cs = e # r0" by (cases cs) auto
    show ?thesis
    proof (cases "json_simple_escape e")
      case (Some d)
      with prem bs cs show ?thesis
        by (auto simp: str_cons_Some dest: IH(2) [OF bs(2) bs(1) cs Some])
    next
      case None
      with prem bs cs obtain h1 h2 h3 h4 r' n where r0: "r0 = h1 # h2 # h3 # h4 # r'"
        and e: "e = CHR ''u''" and n: "hex4 h1 h2 h3 h4 = Some n" "n < 256"
        and rec: "str_cons (char_of n) (parse_str_body r') = Some (x, r)"
        by (auto split: if_splits list.splits option.splits)
      from rec obtain y where "parse_str_body r' = Some (y, r)"
        by (auto simp: str_cons_Some)
      then have "length r < length r'"
        by (rule IH(1) [OF bs(2) bs(1) cs None e r0 refl refl refl n(1) n(2)])
      with cs r0 show ?thesis by simp
    qed
  qed
qed

lemma parse_number_shorter: "parse_number s = Some (v, r) \<Longrightarrow> length r < length s"
  by (auto simp: parse_number_def Let_def less_Suc_eq_le length_dropWhile_le le_SucI
      split: list.splits if_splits prod.splits)

lemma parse_scalar_shorter: "parse_scalar s = Some (v, r) \<Longrightarrow> length r < length s"
  by (cases s) (auto simp: parse_scalar_def dest: parse_str_body_shorter parse_number_shorter
      split: if_splits)

text \<open>
  One member of an object, from just after the opening quote of its key: the key, a
  colon, the value, and the input from the next non-blank character on.
\<close>

definition parse_member :: "string \<Rightarrow> ((string \<times> jvalue) \<times> string) option" where
  "parse_member s =
     (case parse_str_body s of
        None \<Rightarrow> None
      | Some (k, r1) \<Rightarrow>
          (case skip_ws r1 of
             c # r2 \<Rightarrow>
               if c \<noteq> CHR '':'' then None
               else map_option (\<lambda>(v, r3). ((k, v), skip_ws r3)) (parse_scalar (skip_ws r2))
           | [] \<Rightarrow> None))"

lemma parse_member_shorter: "parse_member s = Some (kv, r) \<Longrightarrow> length r < length s"
proof -
  assume "parse_member s = Some (kv, r)"
  then obtain k r1 c r2 v r3 where "parse_str_body s = Some (k, r1)" "skip_ws r1 = c # r2"
    "parse_scalar (skip_ws r2) = Some (v, r3)" "r = skip_ws r3"
    by (auto simp: parse_member_def split: option.splits list.splits if_splits)
  moreover note length_skip_ws_le [of r1] length_skip_ws_le [of r2] length_skip_ws_le [of r3]
  ultimately show ?thesis
    using parse_str_body_shorter parse_scalar_shorter by fastforce
qed

text \<open>
  The members of an object: after each member a closing brace ends the object, a comma
  must be followed by the next key's quote. Each round consumes input, which is the
  termination argument.
\<close>

function parse_members ::
  "(string \<times> jvalue) list \<Rightarrow> string \<Rightarrow> ((string \<times> jvalue) list \<times> string) option" where
  "parse_members acc s =
     (case parse_member s of
        None \<Rightarrow> None
      | Some (kv, r) \<Rightarrow>
          (case r of
             c # r' \<Rightarrow>
               if c = CHR ''}'' then Some (acc @ [kv], r')
               else if c \<noteq> CHR '','' then None
               else
                 (case skip_ws r' of
                    c' # r'' \<Rightarrow> if c' = quote_char then parse_members (acc @ [kv]) r'' else None
                  | [] \<Rightarrow> None)
           | [] \<Rightarrow> None))"
  by pat_completeness auto
termination
proof (relation "measure (\<lambda>(acc, s). length s)")
  fix acc s kvr kv r c r' c' r''
  assume "parse_member s = Some kvr" "(kv, r) = kvr" "r = c # r'" "skip_ws r' = c' # r''"
  then show "((acc @ [kv], r''), acc, s) \<in> measure (\<lambda>(acc, s). length s)"
    using parse_member_shorter [of s kv r] length_skip_ws_le [of r'] by auto
qed simp


definition json_finish :: "jdoc \<Rightarrow> string \<Rightarrow> jdoc option" where
  "json_finish d r = (if skip_ws r = [] then Some d else None)"

text \<open>\<open>json.loads\<close>: whitespace, one document, whitespace, and nothing after it.\<close>

definition json_loads :: "string \<Rightarrow> jdoc option" where
  "json_loads s =
     (case skip_ws s of
        c # r \<Rightarrow>
          if c = CHR ''{'' then
            (case skip_ws r of
               c' # r' \<Rightarrow>
                 if c' = CHR ''}'' then json_finish (JObject []) r'
                 else if c' = quote_char then
                   (case parse_members [] r' of
                      Some (kvs, r'') \<Rightarrow> json_finish (JObject kvs) r''
                    | None \<Rightarrow> None)
                 else None
             | [] \<Rightarrow> None)
          else
            (case parse_scalar (c # r) of
               Some (v, r') \<Rightarrow> json_finish (JScalar v) r'
             | None \<Rightarrow> None)
      | [] \<Rightarrow> None)"

section \<open>\<open>json.loads\<close> inverts \<open>json.dumps\<close>\<close>

lemma skip_ws_Cons [simp]: "\<not> json_ws c \<Longrightarrow> skip_ws (c # s) = c # s"
  by (simp add: skip_ws_def)

lemma skip_ws_Nil [simp]: "skip_ws [] = []"
  by (simp add: skip_ws_def)

lemma json_ws_chars [simp]:
  "\<not> json_ws quote_char" "\<not> json_ws CHR '':''" "\<not> json_ws CHR '',''" "\<not> json_ws CHR ''}''"
  "\<not> json_ws CHR ''{''"
  by (simp_all add: json_ws_def)

lemma hex_val_hex_digit: "d < 16 \<Longrightarrow> hex_val (hex_digit d) = Some d"
  by (simp add: less_Suc_eq numeral_eq_Suc del: One_nat_def, elim disjE)
     (simp_all add: hex_val_def hex_digit_def)

text \<open>The scanner reads an escaped character back, whichever branch escaped it.\<close>

lemma parse_str_body_escape_char:
  "parse_str_body (json_escape_char c @ rest) = str_cons c (parse_str_body rest)"
proof -
  define n where "n = (of_char c :: nat)"
  have n256: "n < 256" and cn: "char_of n = c"
    by (simp_all add: n_def)
  have u: "json_simple_escape (CHR ''u'') = None"
    by (simp add: json_simple_escape_def)
  show ?thesis
  proof (cases "c = quote_char \<or> c = backslash_char \<or> n \<in> {8, 12, 10, 13, 9}")
    case True
    have ctrl: "char_of (8::nat) = CHR 0x08" "char_of (12::nat) = CHR 0x0C" "char_of (10::nat) = CHR 0x0A"
      "char_of (13::nat) = CHR 0x0D" "char_of (9::nat) = CHR 0x09"
      by (rule char_of_eqI; simp)+
    from True show ?thesis
      by (auto simp: json_escape_char_def json_simple_escape_def n_def [symmetric] cn [symmetric] ctrl)
  next
    case False
    show ?thesis
    proof (cases "n < 32 \<or> 126 < n")
      case True
      have "hex4 (CHR ''0'') (CHR ''0'') (hex_digit (n div 16)) (hex_digit (n mod 16)) = Some n"
        using n256 by (simp add: hex4_def hex_val_hex_digit) (simp add: hex_val_def)
      with False True n256 cn u show ?thesis
        by (simp add: json_escape_char_def n_def [symmetric])
    next
      case False': False
      then have "\<not> of_char c < (32::nat)"
        by (simp add: n_def)
      with False False' show ?thesis
        by (simp add: json_escape_char_def n_def [symmetric])
    qed
  qed
qed

lemma parse_str_body_escaped:
  "parse_str_body (concat (map json_escape_char s) @ quote_char # rest) = Some (s, rest)"
  by (induction s) (simp_all add: parse_str_body_escape_char str_cons_def)

text \<open>Where a written value ends: at the end of input, a comma or a closing brace.\<close>

definition json_delim :: "string \<Rightarrow> bool" where
  "json_delim r \<longleftrightarrow> r = [] \<or> hd r = CHR '','' \<or> hd r = CHR ''}''"

lemma json_delim_not_digit: "json_delim r \<Longrightarrow> r \<noteq> [] \<Longrightarrow> \<not> is_digit (hd r)"
  by (auto simp: json_delim_def is_digit_def less_eq_char_def)

lemma json_delim_not_float: "json_delim r \<Longrightarrow> \<not> float_follows r"
  by (auto simp: json_delim_def float_follows_def split: list.splits)

lemma digits_of_nat_head: "0 < n \<Longrightarrow> hd (digits_of_nat n) \<noteq> CHR ''0''"
proof (induction n rule: digits_of_nat.induct)
  case (1 n)
  show ?case
  proof (cases "n < 10")
    case True
    with "1.prems" show ?thesis
      by (simp add: digits_of_nat.simps [of n] char_of_digit_eq_0)
  next
    case False
    with "1.IH" have "hd (digits_of_nat (n div 10)) \<noteq> CHR ''0''"
      by simp
    with False digits_of_nat_correct [of "n div 10"] show ?thesis
      by (simp add: digits_of_nat.simps [of n])
  qed
qed

lemma digits_of_nat_0: "digits_of_nat 0 = ''0''"
  by (simp add: digits_of_nat.simps char_of_eqI)

lemma parse_digits:
  assumes "json_delim rest"
  shows "parse_number (digits_of_nat n @ rest) =
           Some (JInt (int n), rest)"
    and "parse_number (CHR ''-'' # digits_of_nat n @ rest) = Some (JInt (- int n), rest)"
proof -
  obtain d ds where dd: "digits_of_nat n = d # ds"
    using digits_of_nat_correct [of n] by (cases "digits_of_nat n") auto
  have dig: "is_digit d" "list_all is_digit ds" and val: "nat_of_digits (d # ds) = n"
    using digits_of_nat_correct [of n] dd by auto
  have tw: "takeWhile is_digit (ds @ rest) = ds" "dropWhile is_digit (ds @ rest) = rest"
    using dig(2) json_delim_not_digit [OF assms] by (auto simp: list_all_iff takeWhile_append2
        dropWhile_append2 intro: takeWhile_eq_all_conv [THEN iffD2] dropWhile_eq_Nil_conv [THEN iffD2]
        split: list.splits) (cases rest; simp)+
  have minus: "CHR ''-'' \<noteq> d"
    using dig(1) by (auto simp: is_digit_def less_eq_char_def)
  have zero: "d = CHR ''0'' \<Longrightarrow> n = 0 \<and> ds = []"
    using digits_of_nat_head [of n] dd digits_of_nat_0 by (cases "n = 0") auto
  note nf = json_delim_not_float [OF assms]
  show "parse_number (digits_of_nat n @ rest) = Some (JInt (int n), rest)"
    using minus dig(1) tw nf val zero
    by (auto simp: parse_number_def dd nat_of_digits_def)
  show "parse_number (CHR ''-'' # digits_of_nat n @ rest) = Some (JInt (- int n), rest)"
    using dig(1) tw nf val zero
    by (auto simp: parse_number_def dd nat_of_digits_def)
qed

lemma is_digit_not_special:
  "is_digit d \<Longrightarrow> d \<noteq> quote_char \<and> d \<noteq> CHR ''n'' \<and> d \<noteq> CHR ''t'' \<and> d \<noteq> CHR ''f'' \<and> d \<noteq> CHR ''-''"
  by (auto simp: is_digit_def less_eq_char_def)

lemma is_digit_not_ws: "is_digit d \<Longrightarrow> \<not> json_ws d"
  by (auto simp: is_digit_def json_ws_def less_eq_char_def)

lemma is_digit_hd_digits: "is_digit (hd (digits_of_nat n))"
  using digits_of_nat_correct [of n] by (cases "digits_of_nat n") auto

lemma parse_scalar_number:
  assumes "json_delim rest"
  shows "parse_scalar (str_of_int i @ rest) = Some (JInt i, rest)"
proof (cases "i < 0")
  case True
  then have "parse_number (CHR ''-'' # digits_of_nat (nat (- i)) @ rest) = Some (JInt i, rest)"
    using parse_digits(2) [OF assms, of "nat (- i)"] by simp
  with True show ?thesis
    by (simp add: parse_scalar_def str_of_int_def)
next
  case False
  obtain d ds where dd: "digits_of_nat (nat i) = d # ds"
    using digits_of_nat_correct [of "nat i"] by (cases "digits_of_nat (nat i)") auto
  then have "is_digit d"
    using digits_of_nat_correct [of "nat i"] by simp
  then have "d \<noteq> quote_char" "d \<noteq> CHR ''n''" "d \<noteq> CHR ''t''" "d \<noteq> CHR ''f''"
    using is_digit_not_special by blast+
  moreover have "parse_number (digits_of_nat (nat i) @ rest) = Some (JInt i, rest)"
    using parse_digits(1) [OF assms, of "nat i"] False by simp
  ultimately show ?thesis
    using False by (simp add: parse_scalar_def str_of_int_def dd)
qed

lemma parse_scalar_dumps:
  "json_delim rest \<Longrightarrow> parse_scalar (json_dumps_value v @ rest) = Some (v, rest)"
proof (cases v)
  case (JInt i)
  assume "json_delim rest"
  then show ?thesis
    by (simp add: JInt parse_scalar_number)
next
  case (JStr x)
  then show ?thesis
    by (simp add: parse_scalar_def json_str_def parse_str_body_escaped)
qed (auto simp: parse_scalar_def)

lemma json_dumps_value_head: "\<exists>d ds. json_dumps_value v = d # ds \<and> \<not> json_ws d"
proof (cases v)
  case (JInt i)
  obtain d ds where "digits_of_nat (nat (if i < 0 then - i else i)) = d # ds"
    using digits_of_nat_correct by (cases "digits_of_nat (nat (if i < 0 then - i else i))") auto
  moreover have "is_digit (hd (digits_of_nat (nat (if i < 0 then - i else i))))"
    by (rule is_digit_hd_digits)
  ultimately show ?thesis
    using is_digit_not_ws [of d] by (auto simp: JInt str_of_int_def json_ws_def split: if_splits)
qed (auto simp: json_ws_def json_str_def)

text \<open>A written member followed by a comma or the closing brace reads back.\<close>

lemma parse_member_dumps:
  assumes "c = CHR '','' \<or> c = CHR ''}''"
  shows "parse_member (tl (json_member k v) @ c # rest) = Some ((k, v), c # rest)"
proof -
  have "json_delim (c # rest)"
    using assms by (auto simp: json_delim_def)
  moreover have "skip_ws (json_dumps_value v @ c # rest) = json_dumps_value v @ c # rest"
    using json_dumps_value_head [of v] by auto
  ultimately show ?thesis
    using assms
    by (auto simp: parse_member_def json_member_def json_str_def parse_str_body_escaped
        parse_scalar_dumps)
qed

lemma json_members_head: "kvs \<noteq> [] \<Longrightarrow> json_members kvs = quote_char # tl (json_members kvs)"
  by (cases kvs rule: json_members.cases) (auto simp: json_member_def json_str_def)

lemma json_member_head: "json_member k v = quote_char # tl (json_member k v)"
  by (simp add: json_member_def json_str_def)

lemma parse_members_dumps:
  "kvs \<noteq> [] \<Longrightarrow> parse_members acc (tl (json_members kvs) @ CHR ''}'' # rest) = Some (acc @ kvs, rest)"
proof (induction kvs arbitrary: acc rule: json_members.induct)
  case (2 k v)
  have "parse_member (tl (json_member k v) @ CHR ''}'' # rest) = Some ((k, v), CHR ''}'' # rest)"
    by (rule parse_member_dumps) simp
  then show ?case
    by (subst parse_members.simps) (simp del: parse_members.simps)
next
  case (3 k v kv kvs)
  let ?m = "json_members (kv # kvs)"
  have tl: "tl (json_members ((k, v) # kv # kvs)) @ CHR ''}'' # rest =
              tl (json_member k v) @ CHR '','' # ?m @ CHR ''}'' # rest"
  proof -
    have "json_member k v \<noteq> []"
      by (simp add: json_member_def json_str_def)
    then show ?thesis
      by (simp add: tl_append2)
  qed
  have pm: "parse_member (tl (json_member k v) @ CHR '','' # ?m @ CHR ''}'' # rest) =
              Some ((k, v), CHR '','' # ?m @ CHR ''}'' # rest)"
    by (rule parse_member_dumps) simp
  have m: "?m = quote_char # tl ?m"
    by (rule json_members_head) simp
  have "skip_ws (?m @ CHR ''}'' # rest) = quote_char # tl ?m @ CHR ''}'' # rest"
    by (subst m) simp
  then show ?case
    using "3.IH" [of "acc @ [(k, v)]"]
    by (subst tl, subst parse_members.simps) (simp add: pm del: parse_members.simps)
qed simp

theorem json_loads_dumps: "json_loads (json_dumps kvs) = Some (JObject kvs)"
proof (cases "kvs = []")
  case True
  then show ?thesis
    by (simp add: json_loads_def json_dumps_def json_finish_def)
next
  case False
  have "skip_ws (json_members kvs @ ''}'') = quote_char # tl (json_members kvs) @ ''}''"
    by (subst json_members_head [OF False]) simp
  with False show ?thesis
    using parse_members_dumps [OF False, of "[]" "[]"]
    by (simp add: json_loads_def json_dumps_def json_finish_def)
qed

end
