(* ===== verification/Jwt.thy ===== *)
theory Jwt
  imports Base64 Json
begin

text \<open>
  The token codec: python-jose's \<open>jwt.encode\<close> / \<open>jws.sign\<close> and \<open>jwt.decode\<close> /
  \<open>jws.verify\<close> with the HS256 algorithm, as \<open>src/app/authorization.py\<close> calls them.
  HMAC-SHA256 is a parameter \<open>hmac\<close> (key bytes, message bytes, digest): every lemma
  holds for any keyed function, and the few that need the MAC to tell two keys or two
  messages apart say so as a hypothesis about \<open>hmac\<close> at the inputs in question.
  The decoder follows \<open>jws._load\<close>, \<open>jws._verify_signature\<close>, \<open>jwt.decode\<close> and
  \<open>jwt._validate_claims\<close> step by step, each failure a constructor of \<open>jwt_error\<close>.
\<close>

type_synonym hmac_fn = "bytes \<Rightarrow> bytes \<Rightarrow> bytes"
type_synonym claims = "(string \<times> jvalue) list"

section \<open>Errors\<close>

text \<open>
  The \<open>JWSError\<close> / \<open>JWTError\<close> messages of the decoder. \<open>SignatureExpired\<close> is
  \<open>ExpiredSignatureError\<close>, \<open>ClaimsError\<close> a \<open>JWTClaimsError\<close>; \<open>PyTypeError\<close> is the
  \<open>TypeError\<close> that \<open>int(None)\<close> raises inside claim validation (or \<open>json.dumps\<close>
  on a \<open>datetime\<close> it does not convert), which python-jose does not catch.
  \<open>JwkAlgorithmNotFound\<close> is the \<open>JWKError\<close> of \<open>jwk.construct\<close> for an algorithm
  name it does not know; it is not a \<open>JWSError\<close>, so \<open>jwt.decode\<close> lets it through.
\<close>

datatype jwt_error =
    NotEnoughSegments
  | InvalidHeaderString
  | InvalidPayloadPadding
  | InvalidCryptoPadding
  | NoAlgorithm
  | AlgNotAllowed
  | SignatureVerificationFailed
  | InvalidPayloadString
  | ClaimsError string
  | SignatureExpired
  | PyTypeError
  | JwkAlgorithmNotFound

definition is_expired_error :: "jwt_error \<Rightarrow> bool" where
  "is_expired_error e \<longleftrightarrow> e = SignatureExpired"

section \<open>Python values of the claims\<close>

text \<open>A claim value before encoding: JSON data, or a \<open>datetime\<close>, which \<open>jwt.encode\<close>
  turns into seconds since the epoch for the keys \<open>exp\<close>, \<open>iat\<close> and \<open>nbf\<close>.\<close>

datatype pyval = PJson jvalue | PDatetime usec

text \<open>\<open>calendar.timegm(dt.utctimetuple())\<close>: whole seconds, the microseconds dropped.\<close>

definition timegm :: "usec \<Rightarrow> int" where
  "timegm t = t div usec_per_sec"

definition time_claim :: "string \<Rightarrow> bool" where
  "time_claim k \<longleftrightarrow> k = ''exp'' \<or> k = ''iat'' \<or> k = ''nbf''"

text \<open>The loop of \<open>jwt.encode\<close> over \<open>exp\<close>, \<open>iat\<close>, \<open>nbf\<close> replaces a
  \<open>datetime\<close> by its \<open>timegm\<close>; a \<open>datetime\<close> under any other key reaches
  \<open>json.dumps\<close>, which raises \<open>TypeError\<close>.\<close>

definition encode_claim :: "string \<times> pyval \<Rightarrow> jwt_error + (string \<times> jvalue)" where
  "encode_claim kv =
     (case kv of
        (k, PJson v) \<Rightarrow> Inr (k, v)
      | (k, PDatetime t) \<Rightarrow> if time_claim k then Inr (k, JInt (timegm t)) else Inl PyTypeError)"

fun encode_claims :: "(string \<times> pyval) list \<Rightarrow> jwt_error + claims" where
  "encode_claims [] = Inr []"
| "encode_claims (kv # kvs) =
     (case encode_claim kv of
        Inl e \<Rightarrow> Inl e
      | Inr c \<Rightarrow> (case encode_claims kvs of Inl e \<Rightarrow> Inl e | Inr cs \<Rightarrow> Inr (c # cs)))"

text \<open>\<open>int(x)\<close> on a decoded claim value: \<open>ValueError\<close> is \<open>Inl None\<close>, \<open>TypeError\<close>
  \<open>Inl (Some PyTypeError)\<close>.\<close>

definition py_int_of_json :: "jvalue \<Rightarrow> jwt_error option + int" where
  "py_int_of_json v =
     (case v of
        JInt i \<Rightarrow> Inr i
      | JBool b \<Rightarrow> Inr (if b then 1 else 0)
      | JStr s \<Rightarrow> (case py_int_of_str s of Some i \<Rightarrow> Inr i | None \<Rightarrow> Inl None)
      | JNull \<Rightarrow> Inl (Some PyTypeError))"

text \<open>The truth value of a JSON value (\<open>if not alg\<close>).\<close>

definition json_truthy :: "jvalue \<Rightarrow> bool" where
  "json_truthy v = (case v of JNull \<Rightarrow> False | JBool b \<Rightarrow> b | JInt i \<Rightarrow> i \<noteq> 0 | JStr s \<Rightarrow> s \<noteq> [])"

section \<open>Encoding: \<open>jwt.encode\<close>\<close>

definition dot :: byte where
  "dot = 46"

definition algorithm_hs256 :: string where
  "algorithm_hs256 = ''HS256''"

text \<open>\<open>_encode_header\<close>: \<open>{"typ": "JWT", "alg": algorithm}\<close>, written with sorted keys.\<close>

definition jose_header :: claims where
  "jose_header = [(''typ'', JStr ''JWT''), (''alg'', JStr algorithm_hs256)]"

definition encoded_header :: bytes where
  "encoded_header = base64url_encode (utf8_encode (json_dumps_sorted jose_header))"

definition encoded_payload :: "claims \<Rightarrow> bytes" where
  "encoded_payload c = base64url_encode (utf8_encode (json_dumps c))"

definition signing_input :: "claims \<Rightarrow> bytes" where
  "signing_input c = encoded_header @ dot # encoded_payload c"

text \<open>The token bytes are ASCII; \<open>.decode("utf-8")\<close> maps each byte to its character.\<close>

definition ascii_str :: "bytes \<Rightarrow> string" where
  "ascii_str bs = map (\<lambda>b. char_of (unat b)) bs"

definition jws_sign :: "hmac_fn \<Rightarrow> claims \<Rightarrow> string \<Rightarrow> string" where
  "jws_sign hmac c key =
     ascii_str (signing_input c @ dot # base64url_encode (hmac (utf8_encode key) (signing_input c)))"

definition jwt_encode :: "hmac_fn \<Rightarrow> (string \<times> pyval) list \<Rightarrow> string \<Rightarrow> jwt_error + string" where
  "jwt_encode hmac claims key =
     (case encode_claims claims of Inl e \<Rightarrow> Inl e | Inr c \<Rightarrow> Inr (jws_sign hmac c key))"

section \<open>Decoding: \<open>jws._load\<close>\<close>

text \<open>
  \<open>signing_input, crypto_segment = jwt.rsplit(b".", 1)\<close>, then
  \<open>header_segment, claims_segment = signing_input.split(b".", 1)\<close>, then the header
  decoded. A bad header segment raises \<open>binascii.Error\<close>, a subclass of
  \<open>ValueError\<close>, so the first \<open>except ValueError\<close> reports it as "Not enough
  segments". The header must be a JSON object.
\<close>

definition jws_load :: "bytes \<Rightarrow> jwt_error + (claims \<times> bytes \<times> bytes \<times> bytes)" where
  "jws_load t =
     (case rsplit_once dot t of
        None \<Rightarrow> Inl NotEnoughSegments
      | Some (si, crypto_seg) \<Rightarrow>
          (case split_once dot si of
             None \<Rightarrow> Inl NotEnoughSegments
           | Some (header_seg, claims_seg) \<Rightarrow>
               (case base64url_decode header_seg of
                  Inl _ \<Rightarrow> Inl NotEnoughSegments
                | Inr header_data \<Rightarrow>
                    (case map_option json_loads (utf8_decode header_data) of
                       Some (Some (JObject header)) \<Rightarrow>
                         (case base64url_decode claims_seg of
                            Inl _ \<Rightarrow> Inl InvalidPayloadPadding
                          | Inr payload \<Rightarrow>
                              (case base64url_decode crypto_seg of
                                 Inl _ \<Rightarrow> Inl InvalidCryptoPadding
                               | Inr sig \<Rightarrow> Inr (header, payload, si, sig)))
                     | _ \<Rightarrow> Inl InvalidHeaderString))))"

text \<open>\<open>_verify_signature\<close> as \<open>src/app/authorization.py\<close> reaches it: the
  \<open>algorithms\<close> argument is the string \<open>"HS256"\<close>, not a list, so
  \<open>alg not in algorithms\<close> is a substring test, and raises \<open>TypeError\<close> when the
  header's \<open>alg\<close> is not a string. An allowed name other than \<open>HS256\<close> (a proper
  substring such as \<open>HS\<close>) is not an algorithm \<open>jwk.construct\<close> knows. For
  \<open>HS256\<close> the MAC recomputed over the signing input must equal the signature
  (\<open>hmac.compare_digest\<close>).\<close>

definition jws_verify_signature :: "hmac_fn \<Rightarrow> claims \<Rightarrow> bytes \<Rightarrow> bytes \<Rightarrow> string \<Rightarrow> jwt_error + unit" where
  "jws_verify_signature hmac header si sig key =
     (case json_lookup header ''alg'' of
        None \<Rightarrow> Inl NoAlgorithm
      | Some alg \<Rightarrow>
          if \<not> json_truthy alg then Inl NoAlgorithm
          else (case alg of
                  JStr a \<Rightarrow>
                    if \<not> py_str_in a algorithm_hs256 then Inl AlgNotAllowed
                    else if a \<noteq> algorithm_hs256 then Inl JwkAlgorithmNotFound
                    else if hmac (utf8_encode key) si = sig then Inr ()
                    else Inl SignatureVerificationFailed
                | _ \<Rightarrow> Inl PyTypeError))"

definition jws_verify :: "hmac_fn \<Rightarrow> bytes \<Rightarrow> string \<Rightarrow> jwt_error + bytes" where
  "jws_verify hmac t key =
     (case jws_load t of
        Inl e \<Rightarrow> Inl e
      | Inr (header, payload, si, sig) \<Rightarrow>
          (case jws_verify_signature hmac header si sig key of
             Inl e \<Rightarrow> Inl e
           | Inr _ \<Rightarrow> Inr payload))"

section \<open>Claim validation: \<open>jwt._validate_claims\<close>\<close>

text \<open>
  With the default options, no audience, issuer, subject or access token and no leeway:
  \<open>iat\<close>, \<open>nbf\<close> and \<open>exp\<close> must convert to integers, the token must not be used
  before \<open>nbf\<close> nor after \<open>exp\<close>; an \<open>aud\<close> claim always fails (no audience is
  expected; a non-string one as badly formatted), \<open>sub\<close> and \<open>jti\<close> must be strings, an \<open>at_hash\<close> claim fails (no access
  token). The clock is read as whole seconds.
\<close>

definition claim_int :: "claims \<Rightarrow> string \<Rightarrow> string \<Rightarrow> (int \<Rightarrow> jwt_error + unit) \<Rightarrow> jwt_error + unit" where
  "claim_int c k msg check =
     (case json_lookup c k of
        None \<Rightarrow> Inr ()
      | Some v \<Rightarrow>
          (case py_int_of_json v of
             Inl None \<Rightarrow> Inl (ClaimsError msg)
           | Inl (Some e) \<Rightarrow> Inl e
           | Inr i \<Rightarrow> check i))"

definition claim_str :: "claims \<Rightarrow> string \<Rightarrow> string \<Rightarrow> jwt_error + unit" where
  "claim_str c k msg =
     (case json_lookup c k of
        Some (JStr _) \<Rightarrow> Inr ()
      | None \<Rightarrow> Inr ()
      | Some _ \<Rightarrow> Inl (ClaimsError msg))"

definition seq_check :: "jwt_error + unit \<Rightarrow> jwt_error + unit \<Rightarrow> jwt_error + unit" where
  "seq_check a b = (case a of Inl e \<Rightarrow> Inl e | Inr _ \<Rightarrow> b)"

definition validate_claims :: "claims \<Rightarrow> usec \<Rightarrow> jwt_error + unit" where
  "validate_claims c now =
     (let now_s = timegm now in
      seq_check (claim_int c ''iat'' ''Issued At claim (iat) must be an integer.'' (\<lambda>_. Inr ()))
     (seq_check (claim_int c ''nbf'' ''Not Before claim (nbf) must be an integer.''
                   (\<lambda>nbf. if now_s < nbf then Inl (ClaimsError ''The token is not yet valid (nbf)'') else Inr ()))
     (seq_check (claim_int c ''exp'' ''Expiration Time claim (exp) must be an integer.''
                   (\<lambda>exp. if exp < now_s then Inl SignatureExpired else Inr ()))
     (seq_check (case json_lookup c ''aud'' of
                   None \<Rightarrow> Inr ()
                 | Some (JStr _) \<Rightarrow> Inl (ClaimsError ''Invalid audience'')
                 | Some _ \<Rightarrow> Inl (ClaimsError ''Invalid claim format in token''))
     (seq_check (claim_str c ''sub'' ''Subject must be a string.'')
     (seq_check (claim_str c ''jti'' ''JWT ID must be a string.'')
       (if json_lookup c ''at_hash'' = None then Inr ()
        else Inl (ClaimsError ''No access_token provided to compare against at_hash claim.''))))))))"

section \<open>\<open>jwt.decode\<close>\<close>

text \<open>\<open>jwt.decode(token, key, algorithms)\<close> at clock reading \<open>now\<close>: the token is
  encoded to bytes, verified, its payload parsed as a JSON object and validated.\<close>

definition jwt_decode :: "hmac_fn \<Rightarrow> string \<Rightarrow> string \<Rightarrow> usec \<Rightarrow> jwt_error + claims" where
  "jwt_decode hmac token key now =
     (case jws_verify hmac (utf8_encode token) key of
        Inl e \<Rightarrow> Inl e
      | Inr payload \<Rightarrow>
          (case map_option json_loads (utf8_decode payload) of
             Some (Some (JObject c)) \<Rightarrow>
               (case validate_claims c now of
                  Inl e \<Rightarrow> Inl e
                | Inr _ \<Rightarrow> Inr c)
           | _ \<Rightarrow> Inl InvalidPayloadString))"

section \<open>Decoding a token the encoder wrote\<close>

lemma utf8_encode_ascii_str:
  "\<forall>b\<in>set bs. unat b < 128 \<Longrightarrow> utf8_encode (ascii_str bs) = bs"
  by (induction bs) (simp_all add: ascii_str_def unat_of_nat)

lemma dot_not_in_encoded: "dot \<notin> set (base64url_encode s)"
  using base64url_encode_ascii [of dot s] by (auto simp: dot_def segment_byte_def)

lemma signing_input_ascii: "\<forall>b\<in>set (signing_input c). unat b < 128 \<and> b \<noteq> 32"
  using base64url_encode_ascii by (auto simp: signing_input_def encoded_header_def
      encoded_payload_def dot_def segment_byte_def)

lemma split_signing_input:
  "dot \<notin> set t \<Longrightarrow> rsplit_once dot (signing_input c @ dot # t) = Some (signing_input c, t)"
  "split_once dot (signing_input c) = Some (encoded_header, encoded_payload c)"
  by (simp_all only: rsplit_once_append split_once_append signing_input_def encoded_header_def
      dot_not_in_encoded not_False_eq_True encoded_payload_def)

lemma header_lookup_alg: "json_lookup (sort_key fst jose_header) ''alg'' = Some (JStr algorithm_hs256)"
  by (simp add: jose_header_def json_lookup_def)

text \<open>A token made of the encoder's signing input and any dot-free signature segment
  loads to the encoder's header and payload; only the signature segment is still to be
  decoded.\<close>

lemma jws_load_signed:
  "dot \<notin> set t \<Longrightarrow>
   jws_load (signing_input c @ dot # t) =
     (case base64url_decode t of
        Inl _ \<Rightarrow> Inl InvalidCryptoPadding
      | Inr sig \<Rightarrow> Inr (sort_key fst jose_header, utf8_encode (json_dumps c), signing_input c, sig))"
  unfolding jws_load_def split_signing_input(1)
  by (simp add: split_signing_input(2) encoded_header_def encoded_payload_def codec_simps
      json_dumps_sorted_def json_loads_dumps)

lemma jwt_decode_signed:
  assumes "\<forall>b\<in>set t. segment_byte b"
  shows "jwt_decode hmac (ascii_str (signing_input c @ dot # t)) key now =
     (case base64url_decode t of
        Inl _ \<Rightarrow> Inl InvalidCryptoPadding
      | Inr sig \<Rightarrow>
          if hmac (utf8_encode key) (signing_input c) = sig
          then (case validate_claims c now of Inl e \<Rightarrow> Inl e | Inr _ \<Rightarrow> Inr c)
          else Inl SignatureVerificationFailed)"
proof -
  have "utf8_encode (ascii_str (signing_input c @ dot # t)) = signing_input c @ dot # t"
    using assms signing_input_ascii [of c]
    by (intro utf8_encode_ascii_str) (auto simp: dot_def segment_byte_def)
  moreover have "dot \<notin> set t"
    using assms by (auto simp: dot_def segment_byte_def)
  ultimately show ?thesis
    by (auto simp: jwt_decode_def jws_verify_def jws_load_signed jws_verify_signature_def
        header_lookup_alg json_truthy_def algorithm_hs256_def codec_simps json_loads_dumps
        split: sum.split)
qed

lemma ascii_encoded: "\<forall>b\<in>set (base64url_encode s). segment_byte b"
  using base64url_encode_ascii by auto

lemma jws_sign_nonempty: "jws_sign hmac c key \<noteq> []"
  by (simp add: jws_sign_def ascii_str_def)

text \<open>Decoding a token the encoder signed with \<open>key\<close>, under \<open>key'\<close>: the signature
  check compares the two MACs of the signing input, then the claims are validated.\<close>

lemma jwt_decode_sign:
  "jwt_decode hmac (jws_sign hmac c key) key' now =
     (if hmac (utf8_encode key') (signing_input c) = hmac (utf8_encode key) (signing_input c)
      then (case validate_claims c now of Inl e \<Rightarrow> Inl e | Inr _ \<Rightarrow> Inr c)
      else Inl SignatureVerificationFailed)"
  unfolding jws_sign_def jwt_decode_signed [OF ascii_encoded] by (simp add: codec_simps)

text \<open>What an accepted token carries: its header names HS256, its signature segment
  decodes to the MAC of its signing input under the verifier's key, its payload is the
  JSON object returned, and the claims validate at the clock reading.\<close>

lemma jwt_decode_Inr:
  assumes "jwt_decode hmac t key now = Inr c"
  shows "\<exists>h p si. jws_load (utf8_encode t) = Inr (h, p, si, hmac (utf8_encode key) si) \<and>
           json_lookup h ''alg'' = Some (JStr algorithm_hs256) \<and>
           map_option json_loads (utf8_decode p) = Some (Some (JObject c)) \<and>
           validate_claims c now = Inr ()"
  using assms
  by (auto simp: jwt_decode_def jws_verify_def jws_verify_signature_def
      split: sum.splits option.splits if_splits jdoc.splits jvalue.splits)

text \<open>Another signature segment decodes to the same MAC when the MAC's length leaves
  a remainder of 2 modulo 3: the token made with it decodes exactly as the encoder's
  token does, under every key and at every time.\<close>

lemma jwt_decode_malleable:
  assumes "length (hmac (utf8_encode key) (signing_input c)) mod 3 = 2"
  shows "\<exists>t'. t' \<noteq> jws_sign hmac c key \<and> t' \<noteq> [] \<and>
           (\<forall>k now. jwt_decode hmac t' k now = jwt_decode hmac (jws_sign hmac c key) k now)"
proof -
  let ?mac = "hmac (utf8_encode key) (signing_input c)"
  obtain t where t: "t \<noteq> base64url_encode ?mac" "base64url_decode t = Inr ?mac"
    "\<forall>x\<in>set t. segment_byte x"
    using base64url_decode_not_injective [OF assms] by blast
  define t' where "t' = ascii_str (signing_input c @ dot # t)"
  have "utf8_encode t' = signing_input c @ dot # t"
    using t(3) signing_input_ascii [of c]
    unfolding t'_def by (intro utf8_encode_ascii_str) (auto simp: dot_def segment_byte_def)
  moreover have "utf8_encode (jws_sign hmac c key) = signing_input c @ dot # base64url_encode ?mac"
    using ascii_encoded [of ?mac] signing_input_ascii [of c]
    unfolding jws_sign_def by (intro utf8_encode_ascii_str) (auto simp: dot_def segment_byte_def)
  ultimately have "t' \<noteq> jws_sign hmac c key"
    using t(1) by auto
  moreover have "\<forall>k now. jwt_decode hmac t' k now = jwt_decode hmac (jws_sign hmac c key) k now"
    using t(2) unfolding t'_def jws_sign_def
    by (simp add: jwt_decode_signed [OF t(3)] jwt_decode_signed [OF ascii_encoded] codec_simps)
  ultimately show ?thesis
    by (auto simp: t'_def ascii_str_def)
qed

end
