(* ===== verification/Http.thy ===== *)
theory Http
  imports PyBuiltins
begin

text \<open>
  The request boundary of FastAPI as the handlers of \<open>src/app\<close> meet it: an exception
  that leaves a handler or a dependency is either an \<open>HTTPException\<close>, answered with
  its status and detail, or any other exception, answered 500 by the server. The
  \<open>HTTPBearer\<close> security scheme of \<open>fastapi.security\<close> reads the \<open>Authorization\<close>
  header. Both are library code, modelled from their documented behaviour.
\<close>

section \<open>Exceptions at the boundary\<close>

text \<open>\<open>HTTPException(status, detail)\<close>, \<open>None\<close> the default detail (the status phrase);
  \<open>RequestValidationError\<close> a request whose parameters FastAPI cannot read (422);
  \<open>Uncaught name\<close> is an exception of class \<open>name\<close> no handler catches.\<close>

datatype exc = HTTPException nat "string option" | RequestValidationError | Uncaught string

type_synonym 'a outcome = "exc + 'a"

definition status_code :: "exc \<Rightarrow> nat" where
  "status_code e = (case e of HTTPException s _ \<Rightarrow> s | RequestValidationError \<Rightarrow> 422 | Uncaught _ \<Rightarrow> 500)"

section \<open>Request parameters\<close>

text \<open>The query string as FastAPI reads it: each name to its (last) value.\<close>

type_synonym query = "string \<rightharpoonup> string"

text \<open>An \<open>int\<close> query parameter with a default: absent gives the default, a value
  \<open>int()\<close> cannot read makes the request invalid.\<close>

definition query_int :: "query \<Rightarrow> string \<Rightarrow> int \<Rightarrow> int outcome" where
  "query_int qs k d =
     (case qs k of
        None \<Rightarrow> Inr d
      | Some s \<Rightarrow> (case py_int_of_str s of None \<Rightarrow> Inl RequestValidationError | Some i \<Rightarrow> Inr i))"

lemma query_int_str: "qs k = Some (str_of_int i) \<Longrightarrow> query_int qs k d = Inr i"
  by (simp add: query_int_def py_int_of_str_of_int)

section \<open>The \<open>HTTPBearer\<close> scheme\<close>

record http_credentials =
  cred_scheme :: string
  cred_credentials :: string

text \<open>\<open>get_authorization_scheme_param\<close>: no header or an empty one gives two empty
  strings, otherwise \<open>value.partition(" ")\<close> without the separator.\<close>

definition get_authorization_scheme_param :: "string option \<Rightarrow> string \<times> string" where
  "get_authorization_scheme_param h =
     (case h of
        None \<Rightarrow> ([], [])
      | Some v \<Rightarrow> if v = [] then ([], []) else (case str_partition CHR '' '' v of (scheme, _, param) \<Rightarrow> (scheme, param)))"

text \<open>\<open>HTTPBearer.__call__\<close> with \<open>auto_error=True\<close>: 403 "Not authenticated" unless
  header, scheme and credentials are all nonempty, 403 "Invalid authentication
  credentials" unless the scheme is \<open>bearer\<close> in any case.\<close>

definition http_bearer :: "string option \<Rightarrow> http_credentials outcome" where
  "http_bearer authorization =
     (case get_authorization_scheme_param authorization of
        (scheme, credentials) \<Rightarrow>
          if \<not> (py_truthy_str authorization \<and> scheme \<noteq> [] \<and> credentials \<noteq> [])
          then Inl (HTTPException 403 (Some ''Not authenticated''))
          else if py_lower scheme \<noteq> ''bearer''
          then Inl (HTTPException 403 (Some ''Invalid authentication credentials''))
          else Inr \<lparr>cred_scheme = scheme, cred_credentials = credentials\<rparr>)"

lemma http_bearer_Bearer:
  "t \<noteq> [] \<Longrightarrow> http_bearer (Some (''Bearer '' @ t)) = Inr \<lparr>cred_scheme = ''Bearer'', cred_credentials = t\<rparr>"
  by (simp add: http_bearer_def get_authorization_scheme_param_def str_partition_def
      py_truthy_str_def py_lower_def py_lower_char_def) (rule char_of_eqI, simp)

lemma http_bearer_missing:
  "http_bearer None = Inl (HTTPException 403 (Some ''Not authenticated''))"
  by (simp add: http_bearer_def get_authorization_scheme_param_def py_truthy_str_def)

end
