(* ===== verification/Bcrypt.thy ===== *)
theory Bcrypt
  imports Http
begin

text \<open>
  The password verifier: \<open>bcrypt.checkpw\<close> and \<open>bcrypt.hashpw\<close> of the pyca
  \<open>bcrypt\<close> package (3.x), which \<open>issue_token\<close> calls. The C routine
  \<open>bcrypt_hashpass(password, setting)\<close> is a parameter \<open>hashpass\<close>: the hash string,
  or \<open>None\<close> when the setting is not a valid salt. What the Python wrapper adds is
  modelled: NUL bytes are refused, the password is cut to 72 bytes, a \<open>$2y$\<close>
  prefix is read as \<open>$2b$\<close> and given back, and the result is compared with the
  stored hash.
\<close>

type_synonym hashpass_fn = "bytes \<Rightarrow> bytes \<Rightarrow> bytes option"

definition bcrypt_prefix_2y :: bytes where
  "bcrypt_prefix_2y = [36, 50, 121, 36]"

definition bcrypt_prefix_2b :: bytes where
  "bcrypt_prefix_2b = [36, 50, 98, 36]"

text \<open>\<open>_normalize_re.sub(b"$2b$", salt)\<close> with \<open>_normalize_re = re.compile(b"^\$2y\$")\<close>.\<close>

definition normalize_salt :: "bytes \<Rightarrow> bytes" where
  "normalize_salt salt =
     (if take 4 salt = bcrypt_prefix_2y then bcrypt_prefix_2b @ drop 4 salt else salt)"

definition hashpw :: "hashpass_fn \<Rightarrow> bytes \<Rightarrow> bytes \<Rightarrow> bytes outcome" where
  "hashpw hashpass password salt =
     (if 0 \<in> set password then Inl (Uncaught ''ValueError'')
      else (case hashpass (take 72 password) (normalize_salt salt) of
              None \<Rightarrow> Inl (Uncaught ''ValueError'')
            | Some hashed \<Rightarrow> Inr (take 4 salt @ drop 4 hashed)))"

text \<open>\<open>checkpw\<close>: \<open>ValueError\<close> on a NUL byte in either argument, otherwise the
  recomputed hash must equal the stored one (length first, then \<open>timingsafe_bcmp\<close>).\<close>

definition checkpw :: "hashpass_fn \<Rightarrow> bytes \<Rightarrow> bytes \<Rightarrow> bool outcome" where
  "checkpw hashpass password hashed_password =
     (if 0 \<in> set password \<or> 0 \<in> set hashed_password then Inl (Uncaught ''ValueError'')
      else (case hashpw hashpass password hashed_password of
              Inl e \<Rightarrow> Inl e
            | Inr ret \<Rightarrow> Inr (length ret = length hashed_password \<and> ret = hashed_password)))"

text \<open>Only the first 72 bytes of a NUL-free password take part in the check.\<close>

lemma checkpw_take_72:
  assumes "0 \<notin> set p" "0 \<notin> set q" "take 72 p = take 72 q"
  shows "checkpw hashpass p h = checkpw hashpass q h"
  using assms by (simp add: checkpw_def hashpw_def)

end
