(* ===== verification/Auth.thy ===== *)
theory Auth
  imports Jwt Bcrypt
begin

text \<open>
  \<open>src/app/authorization.py\<close>: the user table, the \<open>User\<close> and \<open>UserPayload\<close>
  models, token issue (\<open>create_access_token\<close>, \<open>issue_token\<close> on \<open>POST /login\<close>)
  and token check (\<open>get_user\<close>, \<open>get_current_user\<close> on \<open>GET /users/me\<close>). The
  clock \<open>datetime.utcnow()\<close> is the argument \<open>now\<close> of the handler that reads it;
  HMAC-SHA256 and \<open>bcrypt_hashpass\<close> are the parameters \<open>hmac\<close> and \<open>hashpass\<close>.
\<close>

section \<open>Constants and the user table\<close>

definition ALGORITHM :: string where
  "ALGORITHM = ''HS256''"

definition SECRET_KEY :: string where
  "SECRET_KEY = ''1d425ed25afc72d7d2007a21ee49e5b2804d25344c3e43c1d4058ec7b076fa04''"

text \<open>A row of \<open>fake_user_db\<close>: a dictionary with the keys \<open>id\<close>, \<open>username\<close>,
  \<open>email\<close>, \<open>password\<close> (the bcrypt hash).\<close>

record user_row =
  db_id :: int
  db_username :: string
  db_email :: string
  db_password :: string

type_synonym user_db = "string \<rightharpoonup> user_row"

definition fake_user_db :: user_db where
  "fake_user_db = [''fastcampus'' \<mapsto>
     \<lparr>db_id = 1, db_username = ''fastcampus'', db_email = ''fastcampus@fastcampus.com'',
      db_password = ''$2b$12$kEsp4W6Vrm57c24ez4H1R.rdzYrXipAuSUZR.hxbqtYpjPLWbYtwS''\<rparr>]"

text \<open>The table is keyed by user name: the key of a row is its \<open>username\<close>.\<close>

definition db_keyed :: "user_db \<Rightarrow> bool" where
  "db_keyed db \<longleftrightarrow> (\<forall>k r. db k = Some r \<longrightarrow> db_username r = k)"

section \<open>Models\<close>

text \<open>\<open>class User(BaseModel)\<close> and \<open>class UserPayload(User)\<close>, the subclass a record
  extension.\<close>

record user =
  user_id :: int
  username :: string
  email :: string

record user_payload = user +
  exp :: usec

text \<open>Validation of a row (\<open>User(**row)\<close>): the fields are copied, the password
  ignored as an extra key.\<close>

definition user_of_row :: "user_row \<Rightarrow> user" where
  "user_of_row r = \<lparr>user_id = db_id r, username = db_username r, email = db_email r\<rparr>"

text \<open>\<open>user_info.dict()\<close>: the fields in declaration order.\<close>

definition payload_dict :: "user_payload \<Rightarrow> (string \<times> pyval) list" where
  "payload_dict u =
     [(''id'', PJson (JInt (user_id u))), (''username'', PJson (JStr (username u))),
      (''email'', PJson (JStr (email u))), (''exp'', PDatetime (exp u))]"

text \<open>Pydantic's (v1) coercion of a decoded JSON value to an \<open>int\<close> field (\<open>int(v)\<close>,
  so \<open>True\<close> is 1 and a numeric string is read) and to a \<open>str\<close> field (a number is
  printed with \<open>str\<close>).\<close>

definition pyd_int :: "jvalue \<Rightarrow> int option" where
  "pyd_int v =
     (case v of
        JInt i \<Rightarrow> Some i
      | JBool b \<Rightarrow> Some (if b then 1 else 0)
      | JStr s \<Rightarrow> py_int_of_str s
      | JNull \<Rightarrow> None)"

definition pyd_str :: "jvalue \<Rightarrow> string option" where
  "pyd_str v =
     (case v of
        JStr s \<Rightarrow> Some s
      | JInt i \<Rightarrow> Some (str_of_int i)
      | JBool b \<Rightarrow> Some (if b then ''True'' else ''False'')
      | JNull \<Rightarrow> None)"

text \<open>\<open>User(**decoded_data)\<close>: every field present and coercible, extra keys ignored;
  \<open>None\<close> is the \<open>ValidationError\<close>.\<close>

definition user_of_claims :: "claims \<Rightarrow> user option" where
  "user_of_claims c =
     (case (Option.bind (json_lookup c ''id'') pyd_int, Option.bind (json_lookup c ''username'') pyd_str,
            Option.bind (json_lookup c ''email'') pyd_str) of
        (Some i, Some u, Some e) \<Rightarrow> Some \<lparr>user_id = i, username = u, email = e\<rparr>
      | _ \<Rightarrow> None)"

section \<open>Issuing a token\<close>

text \<open>\<open>timedelta(minutes=30)\<close>, and the range of \<open>datetime\<close> (years 1 to 9999),
  outside of which \<open>datetime + timedelta\<close> raises \<open>OverflowError\<close>.\<close>

definition default_ttl :: usec where
  "default_ttl = 30 * 60 * usec_per_sec"

definition datetime_ok :: "usec \<Rightarrow> bool" where
  "datetime_ok t \<longleftrightarrow> -62135596800 * usec_per_sec \<le> t \<and> t < 253402300800 * usec_per_sec"

text \<open>\<open>create_access_token(data, exp)\<close> at clock reading \<open>now\<close>: \<open>exp or
  timedelta(minutes=30)\<close> takes the default for \<open>None\<close> and for a zero
  \<open>timedelta\<close>, which is false.\<close>

definition create_access_token :: "hmac_fn \<Rightarrow> user_row \<Rightarrow> usec option \<Rightarrow> usec \<Rightarrow> string outcome" where
  "create_access_token hmac data exp_opt now =
     (let expire = now + (case exp_opt of Some d \<Rightarrow> if d \<noteq> 0 then d else default_ttl | None \<Rightarrow> default_ttl)
      in if \<not> datetime_ok expire then Inl (Uncaught ''OverflowError'')
         else (case jwt_encode hmac (payload_dict \<lparr>user_id = db_id data, username = db_username data,
                                           email = db_email data, exp = expire\<rparr>)
                      SECRET_KEY of
                 Inl _ \<Rightarrow> Inl (Uncaught ''TypeError'')
               | Inr token \<Rightarrow> Inr token))"

text \<open>\<open>issue_token\<close>: \<open>fake_user_db[data.username]\<close> raises \<open>KeyError\<close> for an
  unknown name; a password \<open>checkpw\<close> rejects gives 401.\<close>

definition issue_token :: "hmac_fn \<Rightarrow> hashpass_fn \<Rightarrow> user_db \<Rightarrow> usec \<Rightarrow> string \<Rightarrow> string \<Rightarrow> string outcome" where
  "issue_token hmac hashpass db now uname password =
     (case db uname of
        None \<Rightarrow> Inl (Uncaught ''KeyError'')
      | Some u \<Rightarrow>
          (case checkpw hashpass (utf8_encode password) (utf8_encode (db_password u)) of
             Inl e \<Rightarrow> Inl e
           | Inr True \<Rightarrow> create_access_token hmac u (Some default_ttl) now
           | Inr False \<Rightarrow> Inl (HTTPException 401 None)))"

section \<open>Checking a token\<close>

text \<open>The exception a failed \<open>jwt.decode\<close> raises: every \<open>JWSError\<close> is re-raised as
  \<open>JWTError\<close>; the rest keep their class.\<close>

definition jwt_exception :: "jwt_error \<Rightarrow> string" where
  "jwt_exception e =
     (case e of
        SignatureExpired \<Rightarrow> ''ExpiredSignatureError''
      | ClaimsError _ \<Rightarrow> ''JWTClaimsError''
      | PyTypeError \<Rightarrow> ''TypeError''
      | JwkAlgorithmNotFound \<Rightarrow> ''JWKError''
      | _ \<Rightarrow> ''JWTError'')"

text \<open>\<open>get_user(cred)\<close>: only \<open>ExpiredSignatureError\<close> is caught (401 "Expired");
  validation of the claims and the table lookup may raise in turn.\<close>

definition get_user :: "hmac_fn \<Rightarrow> user_db \<Rightarrow> http_credentials \<Rightarrow> usec \<Rightarrow> user_row outcome" where
  "get_user hmac db cred now =
     (case jwt_decode hmac (cred_credentials cred) SECRET_KEY now of
        Inl SignatureExpired \<Rightarrow> Inl (HTTPException 401 (Some ''Expired''))
      | Inl e \<Rightarrow> Inl (Uncaught (jwt_exception e))
      | Inr decoded \<Rightarrow>
          (case user_of_claims decoded of
             None \<Rightarrow> Inl (Uncaught ''ValidationError'')
           | Some info \<Rightarrow>
               (case db (username info) of
                  None \<Rightarrow> Inl (Uncaught ''KeyError'')
                | Some u \<Rightarrow> Inr u)))"

text \<open>\<open>GET /users/me\<close>: the \<open>HTTPBearer\<close> dependency, then \<open>get_user\<close>, then
  \<open>get_current_user\<close>, whose row the \<open>response_model=User\<close> filters.\<close>

definition get_current_user :: "user_row \<Rightarrow> user" where
  "get_current_user u = user_of_row u"

definition users_me :: "hmac_fn \<Rightarrow> user_db \<Rightarrow> string option \<Rightarrow> usec \<Rightarrow> user outcome" where
  "users_me hmac db authorization now =
     (case http_bearer authorization of
        Inl e \<Rightarrow> Inl e
      | Inr cred \<Rightarrow>
          (case get_user hmac db cred now of
             Inl e \<Rightarrow> Inl e
           | Inr u \<Rightarrow> Inr (get_current_user u)))"

section \<open>Tokens issued by \<open>create_access_token\<close>\<close>

lemma encode_payload_dict:
  "encode_claims (payload_dict u) =
     Inr [(''id'', JInt (user_id u)), (''username'', JStr (username u)),
          (''email'', JStr (email u)), (''exp'', JInt (timegm (exp u)))]"
  by (simp add: payload_dict_def encode_claim_def time_claim_def)

lemma create_access_token_ok:
  assumes "datetime_ok expire"
    and "expire = now + (case exp_opt of Some d \<Rightarrow> if d \<noteq> 0 then d else default_ttl | None \<Rightarrow> default_ttl)"
  shows "create_access_token hmac data exp_opt now =
     Inr (jws_sign hmac [(''id'', JInt (db_id data)), (''username'', JStr (db_username data)),
          (''email'', JStr (db_email data)), (''exp'', JInt (timegm expire))] SECRET_KEY)"
  using assms
  by (simp add: create_access_token_def jwt_encode_def encode_payload_dict user_of_row_def
      Let_def)

lemma validate_access_claims:
  "validate_claims [(''id'', JInt i), (''username'', JStr u), (''email'', JStr e), (''exp'', JInt x)] now =
     (if x < timegm now then Inl SignatureExpired else Inr ())"
  by (simp add: validate_claims_def claim_int_def claim_str_def seq_check_def json_lookup_def
      py_int_of_json_def)

lemma user_of_access_claims:
  "user_of_claims [(''id'', JInt i), (''username'', JStr u), (''email'', JStr e), (''exp'', JInt x)] =
     Some \<lparr>user_id = i, username = u, email = e\<rparr>"
  by (simp add: user_of_claims_def json_lookup_def pyd_int_def pyd_str_def)

text \<open>\<open>GET /users/me\<close> with a bearer token is \<open>jwt_decode\<close> of the token followed by
  the validation of its claims and the table lookup.\<close>

lemma users_me_bearer:
  "t \<noteq> [] \<Longrightarrow> users_me hmac db (Some (''Bearer '' @ t)) now =
     (case jwt_decode hmac t SECRET_KEY now of
        Inl SignatureExpired \<Rightarrow> Inl (HTTPException 401 (Some ''Expired''))
      | Inl e \<Rightarrow> Inl (Uncaught (jwt_exception e))
      | Inr decoded \<Rightarrow>
          (case user_of_claims decoded of
             None \<Rightarrow> Inl (Uncaught ''ValidationError'')
           | Some info \<Rightarrow>
               (case db (username info) of
                  None \<Rightarrow> Inl (Uncaught ''KeyError'')
                | Some u \<Rightarrow> Inr (get_current_user u))))"
  using http_bearer_Bearer [of t]
  by (cases "jwt_decode hmac t SECRET_KEY now" rule: sum.exhaust)
     (simp_all add: users_me_def get_user_def split: jwt_error.split option.split)

text \<open>A token signed over the four claims of \<open>create_access_token\<close> with the key
  \<open>key\<close>, presented at clock reading \<open>now\<close>.\<close>

lemma users_me_access_token:
  assumes "c = [(''id'', JInt i), (''username'', JStr u), (''email'', JStr e), (''exp'', JInt x)]"
  shows "users_me hmac db (Some (''Bearer '' @ jws_sign hmac c key)) now =
     (if hmac (utf8_encode SECRET_KEY) (signing_input c) \<noteq> hmac (utf8_encode key) (signing_input c)
      then Inl (Uncaught ''JWTError'')
      else if x < timegm now then Inl (HTTPException 401 (Some ''Expired''))
      else (case db u of None \<Rightarrow> Inl (Uncaught ''KeyError'') | Some r \<Rightarrow> Inr (get_current_user r)))"
  using assms users_me_bearer [where t = "jws_sign hmac c key" and db = db and now = now, OF jws_sign_nonempty]
  by (simp add: jwt_decode_sign validate_access_claims user_of_access_claims jwt_exception_def)

text \<open>What \<open>issue_token\<close> returns for a known user whose password checks.\<close>

lemma issue_token_ok:
  assumes "db uname = Some row"
    and "checkpw hashpass (utf8_encode pw) (utf8_encode (db_password row)) = Inr True"
    and "datetime_ok (now + default_ttl)"
  shows "issue_token hmac hashpass db now uname pw =
     Inr (jws_sign hmac [(''id'', JInt (db_id row)), (''username'', JStr (db_username row)),
          (''email'', JStr (db_email row)), (''exp'', JInt (timegm (now + default_ttl)))] SECRET_KEY)"
  using assms by (simp add: issue_token_def create_access_token_ok default_ttl_def usec_per_sec_def)

text \<open>Logging in and presenting the token: the answer of \<open>GET /users/me\<close> depends only
  on whether the clock has passed the second of expiry and on the row the table holds
  under the user's name.\<close>

lemma login_token_users_me:
  assumes "db uname = Some row"
    and "checkpw hashpass (utf8_encode pw) (utf8_encode (db_password row)) = Inr True"
    and "datetime_ok (now + default_ttl)"
  shows "\<exists>token. issue_token hmac hashpass db now uname pw = Inr token \<and>
           users_me hmac db (Some (''Bearer '' @ token)) now' =
             (if timegm (now + default_ttl) < timegm now' then Inl (HTTPException 401 (Some ''Expired''))
              else (case db (db_username row) of
                      None \<Rightarrow> Inl (Uncaught ''KeyError'')
                    | Some r \<Rightarrow> Inr (get_current_user r)))"
  using issue_token_ok [of db uname row, OF assms]
  by (simp add: users_me_access_token [OF refl, simplified])

text \<open>Whatever \<open>issue_token\<close> returns is the token of a row of the table, signed over
  its four claims.\<close>

lemma issue_token_Inr:
  assumes "issue_token hmac hashpass db now uname pw = Inr token"
  shows "\<exists>row. db uname = Some row \<and> datetime_ok (now + default_ttl) \<and>
           token = jws_sign hmac [(''id'', JInt (db_id row)), (''username'', JStr (db_username row)),
             (''email'', JStr (db_email row)), (''exp'', JInt (timegm (now + default_ttl)))] SECRET_KEY"
  using assms
  by (auto simp: issue_token_def create_access_token_def jwt_encode_def encode_payload_dict Let_def
      split: option.splits sum.splits bool.splits if_splits)

end
