(* ===== verification/Endpoints.thy ===== *)
theory Endpoints
  imports Http
begin

text \<open>
  The remaining handlers of \<open>src/app/main.py\<close> apart from the database ones: the form
  stubs \<open>login\<close> and \<open>signin\<close>, \<open>GET /users/{user_id}\<close> over the dictionary
  \<open>users\<close>, the file endpoints (\<open>/file/size\<close>, \<open>/file/info\<close>, and \<open>/file/store\<close>
  with \<open>save_file\<close>, which writes a temporary file that outlives the request, modelled
  as a store of named files), and the error endpoints with the handler registered for
  \<open>SomeError\<close>.
\<close>

section \<open>Responses\<close>

text \<open>A JSON answer whose values are strings or integers.\<close>

datatype jfield = FStr string | FInt int | FNull

type_synonym jbody = "(string \<times> jfield) list"

section \<open>Form stubs\<close>

text \<open>\<open>POST /login\<close> and \<open>POST /signin\<close> of this application: the form fields (and
  the file of \<open>signin\<close>) are required, a missing one makes the request invalid; the
  answer echoes the user name.\<close>

definition login :: "string option \<Rightarrow> string option \<Rightarrow> jbody outcome" where
  "login username password =
     (case (username, password) of
        (Some u, Some _) \<Rightarrow> Inr [(''username'', FStr u)]
      | _ \<Rightarrow> Inl RequestValidationError)"

definition signin :: "string option \<Rightarrow> string option \<Rightarrow> bytes option \<Rightarrow> jbody outcome" where
  "signin username password file =
     (case (username, password, file) of
        (Some u, Some _, Some _) \<Rightarrow> Inr [(''username'', FStr u)]
      | _ \<Rightarrow> Inl RequestValidationError)"

section \<open>Users by id\<close>

definition users :: "int \<rightharpoonup> (string \<times> string) list" where
  "users = [1 \<mapsto> [(''name'', ''Fast'')], 2 \<mapsto> [(''name'', ''Campus'')], 3 \<mapsto> [(''name'', ''API'')]]"

text \<open>\<open>get_user(user_id)\<close>: 404 with the f-string detail unless the id is a key.\<close>

definition get_user_by_id :: "int \<Rightarrow> ((string \<times> string) list) outcome" where
  "get_user_by_id user_id =
     (if user_id \<notin> dom users
      then Inl (HTTPException 404 (Some (''<User: '' @ str_of_int user_id @ ''> is not exists.'')))
      else Inr (the (users user_id)))"

text \<open>The route reads the path segment as an \<open>int\<close>.\<close>

definition route_get_user_by_id :: "string \<Rightarrow> ((string \<times> string) list) outcome" where
  "route_get_user_by_id seg =
     (case py_int_of_str seg of None \<Rightarrow> Inl RequestValidationError | Some i \<Rightarrow> get_user_by_id i)"

section \<open>Files\<close>

text \<open>An uploaded file: its content type, file name and content.\<close>

record upload =
  content_type :: "string option"
  filename :: "string option"
  content :: bytes

definition get_filesize :: "bytes \<Rightarrow> jbody" where
  "get_filesize file = [(''file_size'', FInt (int (length file)))]"

definition get_file_info :: "upload \<Rightarrow> jbody" where
  "get_file_info file =
     [(''content_type'', case content_type file of None \<Rightarrow> FNull | Some t \<Rightarrow> FStr t),
      (''filename'', case filename file of None \<Rightarrow> FNull | Some n \<Rightarrow> FStr n)]"

text \<open>The file system the temporary files go to, by path.\<close>

type_synonym files = "string \<rightharpoonup> bytes"

text \<open>\<open>NamedTemporaryFile("wb", delete=False)\<close> tries the candidate names the random
  sequence yields, at most \<open>TMP_MAX = 10000\<close> of them, and creates the first that does
  not exist (\<open>O_EXCL\<close>); with none left it raises \<open>FileExistsError\<close>. The file gets
  \<open>file.read()\<close> and is kept when the \<open>with\<close> block ends.\<close>

definition tmp_max :: nat where
  "tmp_max = 10000"

definition save_file :: "string list \<Rightarrow> files \<Rightarrow> bytes \<Rightarrow> (files \<times> string) outcome" where
  "save_file names fs data =
     (case find (\<lambda>n. n \<notin> dom fs) (take tmp_max names) of
        None \<Rightarrow> Inl (Uncaught ''FileExistsError'')
      | Some path \<Rightarrow> Inr (fs(path \<mapsto> data), path))"

definition store_file :: "string list \<Rightarrow> files \<Rightarrow> upload \<Rightarrow> (files \<times> jbody) outcome" where
  "store_file names fs file =
     (case save_file names fs (content file) of
        Inl e \<Rightarrow> Inl e
      | Inr (fs', path) \<Rightarrow> Inr (fs', [(''filepath'', FStr path)]))"

section \<open>Errors\<close>

text \<open>
  The exceptions of \<open>app.custom_error\<close>, a module that is not among the sources:
  \<open>SomeError(name, code)\<close> with the attributes \<open>name\<close> and \<open>code\<close>, and
  \<open>SomeFastAPIError(status_code, detail)\<close>, taken to be an \<open>HTTPException\<close>
  subclass, as its arguments suggest.
\<close>

datatype app_error = SomeError string nat | SomeFastAPIError nat string

text \<open>An answer: status and JSON body.\<close>

type_synonym answer = "nat \<times> jbody"

definition get_error :: "app_error" where
  "get_error = SomeError ''Hello'' 500"

definition get_error2 :: "app_error" where
  "get_error2 = SomeFastAPIError 500 ''Hello''"

text \<open>\<open>some_error_handler\<close>: the message \<open>f"error is {exc.name}"\<close> with status
  \<open>exc.code\<close> (the \<open>print\<close> goes to the server log).\<close>

definition some_error_handler :: "string \<Rightarrow> nat \<Rightarrow> answer" where
  "some_error_handler name code = (code, [(''message'', FStr (''error is '' @ name))])"

text \<open>How the application answers an exception a handler raises: \<open>SomeError\<close> goes
  to its registered handler, an \<open>HTTPException\<close> to FastAPI's, which answers
  \<open>{"detail": ...}\<close>.\<close>

definition answer_error :: "app_error \<Rightarrow> answer" where
  "answer_error e =
     (case e of
        SomeError name code \<Rightarrow> some_error_handler name code
      | SomeFastAPIError code detail \<Rightarrow> (code, [(''detail'', FStr detail)]))"

section \<open>Requests in sequence\<close>

text \<open>A sequence of \<open>POST /file/store\<close> requests, each with the names its
  temporary-file generator yields, against one file system; the paths returned.\<close>

fun store_seq :: "(string list \<times> upload) list \<Rightarrow> files \<Rightarrow> (files \<times> jbody list) outcome" where
  "store_seq [] fs = Inr (fs, [])"
| "store_seq ((ns, u) # rs) fs =
     (case store_file ns fs u of
        Inl e \<Rightarrow> Inl e
      | Inr (fs', body) \<Rightarrow>
          (case store_seq rs fs' of Inl e \<Rightarrow> Inl e | Inr (fs'', bodies) \<Rightarrow> Inr (fs'', body # bodies)))"

section \<open>Facts\<close>

lemma save_file_Inr:
  assumes "save_file names fs d = Inr (fs', p)"
  shows "p \<notin> dom fs" "fs' = fs(p \<mapsto> d)" "p \<in> set names"
  using assms
  by (auto simp: save_file_def dest!: find_Some_iff [THEN iffD1] split: option.splits
      dest: in_set_takeD nth_mem)

lemma store_file_Inr:
  assumes "store_file names fs u = Inr (fs', body)"
  shows "\<exists>p. body = [(''filepath'', FStr p)] \<and> p \<notin> dom fs \<and> fs' = fs(p \<mapsto> content u)"
  using assms save_file_Inr [of names fs "content u"]
  by (auto simp: store_file_def split: sum.splits)

lemma get_user_by_id_missing:
  "user_id \<notin> dom users \<Longrightarrow>
   get_user_by_id user_id = Inl (HTTPException 404 (Some (''<User: '' @ str_of_int user_id @ ''> is not exists.'')))"
  by (simp add: get_user_by_id_def)

end
