(* ===== verification/UsersDb.thy ===== *)
theory UsersDb
  imports Http
begin

text \<open>
  \<open>POST /users\<close> (\<open>create_user\<close>) and \<open>GET /users\<close> (\<open>read_users\<close>) of
  \<open>src/app/main.py\<close> over the table of \<open>models.User\<close>. The modules \<open>app.models\<close>
  and \<open>app.schemas\<close> are not among the sources: a row is taken to be an
  auto-increment id, an e-mail address and a password, and whether the column
  \<open>email\<close> carries a unique constraint is the parameter \<open>uq\<close>. A request is a
  query, then an insert committed; requests run in FastAPI's thread pool, so the
  steps of two requests may interleave. The sequential semantics is a function, the
  interleaved one an inductive step relation.
\<close>

section \<open>The table\<close>

record db_user =
  uid :: nat
  uemail :: string
  upassword :: string

text \<open>The table and the auto-increment counter of its id column.\<close>

record table =
  rows :: "db_user list"
  next_id :: nat

definition emails :: "table \<Rightarrow> string list" where
  "emails t = map uemail (rows t)"

text \<open>\<open>db.query(models.User).filter_by(email=...).first()\<close>.\<close>

definition query_email :: "table \<Rightarrow> string \<Rightarrow> db_user option" where
  "query_email t e = find (\<lambda>u. uemail u = e) (rows t)"

text \<open>\<open>db.add(user); db.commit()\<close>: the row gets the next id; a unique constraint
  refuses a second row with the same address (\<open>IntegrityError\<close>).\<close>

definition insert_user :: "bool \<Rightarrow> table \<Rightarrow> string \<Rightarrow> string \<Rightarrow> (table \<times> db_user) outcome" where
  "insert_user uq t e pw =
     (if uq \<and> e \<in> set (emails t) then Inl (Uncaught ''IntegrityError'')
      else (let u = \<lparr>uid = next_id t, uemail = e, upassword = pw\<rparr>
            in Inr (\<lparr>rows = rows t @ [u], next_id = Suc (next_id t)\<rparr>, u)))"

section \<open>Handlers\<close>

definition create_user :: "bool \<Rightarrow> table \<Rightarrow> string \<Rightarrow> string \<Rightarrow> (table \<times> db_user) outcome" where
  "create_user uq t e pw =
     (case query_email t e of
        Some _ \<Rightarrow> Inl (HTTPException 400 (Some ''Email already registered''))
      | None \<Rightarrow> insert_user uq t e pw)"

definition read_users :: "table \<Rightarrow> db_user list" where
  "read_users t = rows t"

section \<open>Interleaved requests\<close>

text \<open>The phase of one \<open>create_user\<close> request: not started, past its query with no
  row found, or answered (status).\<close>

datatype phase = Start | Checked | Answered nat

record server =
  tbl :: table
  reqs :: "(string \<times> string \<times> phase) list"

inductive cu_step :: "bool \<Rightarrow> server \<Rightarrow> server \<Rightarrow> bool" for uq where
  query_found:
    "\<lbrakk>i < length (reqs s); reqs s ! i = (e, pw, Start); query_email (tbl s) e \<noteq> None\<rbrakk>
     \<Longrightarrow> cu_step uq s (s\<lparr>reqs := (reqs s)[i := (e, pw, Answered 400)]\<rparr>)"
| query_none:
    "\<lbrakk>i < length (reqs s); reqs s ! i = (e, pw, Start); query_email (tbl s) e = None\<rbrakk>
     \<Longrightarrow> cu_step uq s (s\<lparr>reqs := (reqs s)[i := (e, pw, Checked)]\<rparr>)"
| insert_ok:
    "\<lbrakk>i < length (reqs s); reqs s ! i = (e, pw, Checked); insert_user uq (tbl s) e pw = Inr (t', u)\<rbrakk>
     \<Longrightarrow> cu_step uq s \<lparr>tbl = t', reqs = (reqs s)[i := (e, pw, Answered 200)]\<rparr>"
| insert_fail:
    "\<lbrakk>i < length (reqs s); reqs s ! i = (e, pw, Checked); insert_user uq (tbl s) e pw = Inl err\<rbrakk>
     \<Longrightarrow> cu_step uq s (s\<lparr>reqs := (reqs s)[i := (e, pw, Answered (status_code err))]\<rparr>)"

inductive_cases cu_stepE: "cu_step uq s s'"

section \<open>Facts\<close>

text \<open>The table's well-formedness: the counter is above every id, and the ids are
  distinct.\<close>

definition table_ok :: "table \<Rightarrow> bool" where
  "table_ok t \<longleftrightarrow> distinct (map uid (rows t)) \<and> (\<forall>u\<in>set (rows t). uid u < next_id t)"

lemma query_email_None: "query_email t e = None \<longleftrightarrow> e \<notin> set (emails t)"
  by (auto simp: query_email_def emails_def find_None_iff)

lemma insert_user_Inr:
  "insert_user uq t e pw = Inr (t', u) \<Longrightarrow>
   rows t' = rows t @ [u] \<and> uemail u = e \<and> uid u = next_id t \<and> next_id t' = Suc (next_id t)"
  by (auto simp: insert_user_def Let_def split: if_splits)

lemma insert_user_table_ok:
  "insert_user uq t e pw = Inr (t', u) \<Longrightarrow> table_ok t \<Longrightarrow> table_ok t'"
  by (drule insert_user_Inr) (fastforce simp: table_ok_def less_SucI)

lemma insert_user_unique:
  "uq \<Longrightarrow> insert_user uq t e pw = Inr (t', u) \<Longrightarrow> distinct (emails t) \<Longrightarrow> distinct (emails t')"
  by (auto simp: insert_user_def emails_def Let_def split: if_splits)

end
