(* ===== verification/Spec2Isabelle.thy ===== *)
theory Spec2Isabelle
  imports Auth Items Endpoints UsersDb
begin

text \<open>
  \<^bold>\<open>A verification library for the FastAPI examples of \<open>src/app\<close>.\<close>

  \<^bold>\<open>The program.\<close> \<open>src/app/authorization.py\<close> is a small bearer-token service:
  \<open>POST /login\<close> (\<open>issue_token\<close>) looks the user up in \<open>fake_user_db\<close>, checks the
  password with \<open>bcrypt.checkpw\<close> and returns a JWT made by \<open>create_access_token\<close>
  with python-jose (HS256, secret \<open>SECRET_KEY\<close>, expiry 30 minutes);
  \<open>GET /users/me\<close> reads the \<open>Authorization: Bearer\<close> header (\<open>HTTPBearer\<close>),
  decodes the token in \<open>get_user\<close> and answers the user through
  \<open>get_current_user\<close>. \<open>src/app/main.py\<close> is a separate application of
  examples: parameter injection over a tuple of items (with the classes of
  \<open>src/app/dp_injection.py\<close>), a users dictionary, file endpoints, error handlers
  and two database endpoints over SQLAlchemy (\<open>src/app/database.py\<close>).

  \<^bold>\<open>Theories.\<close>
  \<^item> \<open>Prelude\<close>: bytes (\<open>8 word\<close> lists), microsecond timestamps, rule collections.
  \<^item> \<open>PyBuiltins\<close>: Python built-ins as CPython computes them: slicing with negative
    bounds, \<open>str(int)\<close> and \<open>int(str)\<close> with their round trip, UTF-8, split and
    partition, \<open>str.lower\<close>, substring test, truthiness.
  \<^item> \<open>Base64\<close>: CPython's \<open>binascii\<close> base64 encoder and its non-strict decoding state
    machine (\<open>a2b_loop\<close>), the URL-safe variants and python-jose's
    \<open>base64url_encode\<close>/\<open>base64url_decode\<close>; the decoder inverts the encoder, and
    for inputs of length 2 modulo 3 a second encoding decodes to the same bytes.
  \<^item> \<open>Json\<close>: \<open>json.dumps\<close> with compact separators and \<open>ensure_ascii\<close>, and the
    \<open>json.loads\<close> scanner, on flat objects; the scanner inverts the printer.
  \<^item> \<open>Jwt\<close>: python-jose's \<open>jws.sign\<close>, \<open>jwt.encode\<close>, \<open>jws._load\<close>,
    \<open>_verify_signature\<close> (called with the string \<open>"HS256"\<close>, so the allowed-algorithm
    test is a substring test), \<open>_validate_claims\<close> and \<open>jwt.decode\<close>, each error a
    constructor of \<open>jwt_error\<close>. HMAC-SHA256 is the parameter \<open>hmac\<close>.
  \<^item> \<open>Http\<close>: exceptions at the request boundary (\<open>HTTPException\<close>, request
    validation, uncaught = 500), query integers, and \<open>HTTPBearer\<close>.
  \<^item> \<open>Bcrypt\<close>: the Python side of \<open>bcrypt.hashpw\<close>/\<open>checkpw\<close> (NUL check, 72-byte
    cut, \<open>$2y$\<close> prefix); the C hash is the parameter \<open>hashpass\<close>.
  \<^item> \<open>Auth\<close>: \<open>authorization.py\<close> line by line: \<open>ALGORITHM\<close>, \<open>SECRET_KEY\<close>,
    \<open>fake_user_db\<close>, the models \<open>User\<close> and \<open>UserPayload\<close> (a record extension),
    \<open>create_access_token\<close>, \<open>issue_token\<close>, \<open>get_user\<close>, \<open>get_current_user\<close> and
    the route \<open>users_me\<close>; every raise is a value of the outcome type.
  \<^item> \<open>Items\<close>: the four \<open>/items/...\<close> handlers of \<open>main.py\<close> written out as in the
    code, \<open>func_params\<close>, \<open>ClassParams\<close>, \<open>PydanticParams\<close>, \<open>get_q\<close>,
    \<open>verify_token\<close> and \<open>get_items\<close>, and the specification \<open>items_page\<close>.
  \<^item> \<open>Endpoints\<close>: \<open>login\<close>/\<open>signin\<close> stubs, \<open>get_user\<close> by id over \<open>users\<close>, file
    size and info, \<open>save_file\<close>/\<open>store_file\<close> over a store of named files, the
    error endpoints and \<open>some_error_handler\<close>.
  \<^item> \<open>UsersDb\<close>: \<open>create_user\<close> and \<open>read_users\<close> over a table with an
    auto-increment counter, and the inductive step relation \<open>cu_step\<close> in which the
    query and the insert of concurrent requests interleave.

  \<^bold>\<open>What is proved\<close> (claims C1 to C22 below, each after the text that states it):
  login followed by authentication returns the user up to the second the expiry falls
  in, so a token still works within that second (C1); expired tokens get 401 (C2);
  accepted tokens carry a MAC under the server key (C3); tokens under another key are
  rejected, as 500 (C4); the codec round trip (C5); the signature segment is
  malleable (C6); unknown users and wrong passwords are told apart (C7); every decode
  failure other than expiry is an uncaught error, 500 (C8); the token carries no
  password (C9); a missing header or any non-bearer scheme gets 403 (C10); passwords
  are cut to 72 bytes (C11); tokens without \<open>exp\<close> never expire (C12); the items
  routes agree (C13), implement the page specification (C14), answer all but the last
  \<open>-limit\<close> items for a negative limit (C15), answer invalid Pydantic parameters
  with 500 (C16) and are bounded in length (C17); the 404 detail reads back (C18);
  stored files are kept apart and intact (C19, C20); \<open>create_user\<close> preserves the
  table invariant (C21) and races under concurrency (C22). The component theories
  hold the lemmas these rest on: the base64, JSON, UTF-8 and decimal round trips, the
  decoding of any token the encoder wrote (\<open>jwt_decode_signed\<close>,
  \<open>jwt_decode_sign\<close>), and the composition lemmas of \<open>Auth\<close>.

  \<^bold>\<open>Bounds and parameters.\<close> There is no fuel: every loop of the model is structural
  recursion or a \<open>function\<close> with a measure (the JSON object scanner). The clock is an
  argument (microseconds); \<open>datetime\<close> arithmetic is bounded by years 1 to 9999
  (\<open>datetime_ok\<close>). \<open>NamedTemporaryFile\<close> tries at most \<open>TMP_MAX = 10000\<close> names.
  The examples use stand-ins \<open>toy_hmac\<close> and \<open>toy_hashpass\<close>; every theorem holds
  for any \<open>hmac\<close> and \<open>hashpass\<close>, with hypotheses on them where a claim needs one.

  \<^bold>\<open>Not modelled.\<close> The cryptographic strength of HMAC-SHA256 and bcrypt (they are
  parameters). Strings are Latin-1 (code points below 256). JSON values are flat
  (no arrays or nested objects, no floats). \<open>app.models\<close>, \<open>app.schemas\<close> and
  \<open>app.custom_error\<close> are not in the sources: the row shape and a unique constraint
  are parameters, the exceptions are taken from their use. The application setup of
  \<open>main.py\<close> (\<open>create_all\<close>, the static mount, \<open>get_db\<close>'s session open and close)
  and \<open>database.py\<close> (engine and session factory) are configuration and I/O with no
  logic to check. No claim is of the termination kind: every function of the model is
  total by construction, and the only unbounded loop behind the code, the temporary
  name search, is cut at \<open>TMP_MAX\<close>.
\<close>

section \<open>Instances used by the examples\<close>

text \<open>A keyed function standing in for HMAC-SHA256 in the examples: the first 32 bytes of
  the key, so that it has the digest's length and tells the two keys used apart. A
  stand-in for \<open>bcrypt_hashpass\<close> that accepts the password \<open>secret\<close> for any salt.\<close>

definition toy_hmac :: hmac_fn where
  "toy_hmac k m = take 32 k"

definition toy_hashpass :: hashpass_fn where
  "toy_hashpass p salt = (if p = utf8_encode ''secret'' then Some salt else Some [])"

text \<open>The stand-in accepts the password \<open>secret\<close> for the row of \<open>fake_user_db\<close>.\<close>

lemma toy_checkpw_secret:
  "checkpw toy_hashpass (utf8_encode ''secret'') (utf8_encode (db_password (the (fake_user_db ''fastcampus'')))) =
     Inr True"
  by (simp add: checkpw_def hashpw_def toy_hashpass_def fake_user_db_def normalize_salt_def
      bcrypt_prefix_2y_def)

lemma toy_login:
  "issue_token toy_hmac toy_hashpass fake_user_db 0 ''fastcampus'' ''secret'' =
     Inr (jws_sign toy_hmac [(''id'', JInt 1), (''username'', JStr ''fastcampus''),
       (''email'', JStr ''fastcampus@fastcampus.com''), (''exp'', JInt 1800)] SECRET_KEY)"
  using issue_token_ok [of fake_user_db "''fastcampus''" "the (fake_user_db ''fastcampus'')"
      toy_hashpass "''secret''" 0 toy_hmac] toy_checkpw_secret
  by (simp add: fake_user_db_def datetime_ok_def default_ttl_def usec_per_sec_def timegm_def)

section \<open>Login and authentication\<close>

text \<open>C1: a user of the table who logs in with a password that checks gets a token, and
  presenting that token as a bearer credential to \<open>GET /users/me\<close> at any time up to
  the second its expiry falls in returns the user's public fields.\<close>

theorem login_then_authenticate:
  assumes "db_keyed db" "db uname = Some row"
    and "checkpw hashpass (utf8_encode pw) (utf8_encode (db_password row)) = Inr True"
    and "datetime_ok (now + default_ttl)" "timegm now' \<le> timegm (now + default_ttl)"
  shows "\<exists>token. issue_token hmac hashpass db now uname pw = Inr token \<and>
           users_me hmac db (Some (''Bearer '' @ token)) now' = Inr (user_of_row row)"
proof -
  have "db (db_username row) = Some row"
    using assms(1,2) by (auto simp: db_keyed_def)
  then show ?thesis
    using assms(5) login_token_users_me [of db uname row, OF assms(2,3,4), of hmac now']
    by (simp add: get_current_user_def)
qed

theorem login_then_authenticate_witness:
  "\<exists>token. issue_token toy_hmac toy_hashpass fake_user_db 0 ''fastcampus'' ''secret'' = Inr token \<and>
     users_me toy_hmac fake_user_db (Some (''Bearer '' @ token)) 0 =
       Inr \<lparr>user_id = 1, username = ''fastcampus'', email = ''fastcampus@fastcampus.com''\<rparr>"
proof -
  have "db_keyed fake_user_db"
    by (simp add: db_keyed_def fake_user_db_def)
  moreover have "checkpw toy_hashpass (utf8_encode ''secret'')
      (utf8_encode (db_password (the (fake_user_db ''fastcampus'')))) = Inr True"
    by (rule toy_checkpw_secret)
  ultimately show ?thesis
    using login_then_authenticate [of fake_user_db "''fastcampus''" "the (fake_user_db ''fastcampus'')"
        toy_hashpass "''secret''" 0 0 toy_hmac]
    by (simp add: fake_user_db_def user_of_row_def datetime_ok_def default_ttl_def
        usec_per_sec_def timegm_def)
qed


text \<open>C2: a token presented after the second its expiry falls in is answered 401
  "Expired" by \<open>GET /users/me\<close>.\<close>

theorem expired_token_rejected:
  assumes "db uname = Some row"
    and "checkpw hashpass (utf8_encode pw) (utf8_encode (db_password row)) = Inr True"
    and "datetime_ok (now + default_ttl)" "timegm (now + default_ttl) < timegm now'"
  shows "\<exists>token. issue_token hmac hashpass db now uname pw = Inr token \<and>
           users_me hmac db (Some (''Bearer '' @ token)) now' = Inl (HTTPException 401 (Some ''Expired''))"
  using login_token_users_me [of db uname row, OF assms(1,2,3), of hmac now'] assms(4) by simp

theorem expired_token_rejected_witness:
  "\<exists>token. issue_token toy_hmac toy_hashpass fake_user_db 0 ''fastcampus'' ''secret'' = Inr token \<and>
     users_me toy_hmac fake_user_db (Some (''Bearer '' @ token)) 1801000000 =
       Inl (HTTPException 401 (Some ''Expired''))"
proof -
  have "checkpw toy_hashpass (utf8_encode ''secret'')
      (utf8_encode (db_password (the (fake_user_db ''fastcampus'')))) = Inr True"
    by (rule toy_checkpw_secret)
  then show ?thesis
    using expired_token_rejected [of fake_user_db "''fastcampus''" "the (fake_user_db ''fastcampus'')"
        toy_hashpass "''secret''" 0 1801000000 toy_hmac]
    by (simp add: fake_user_db_def datetime_ok_def default_ttl_def usec_per_sec_def timegm_def)
qed


text \<open>C3: whatever \<open>GET /users/me\<close> accepts carries a bearer token whose header names
  HS256 and whose signature segment decodes to the MAC, under the server's key, of the
  token's own signing input: without the key no accepted token can be made.\<close>

theorem accepted_token_is_authentic:
  assumes "users_me hmac db auth now = Inr usr"
  shows "\<exists>cred h p si. http_bearer auth = Inr cred \<and>
           jws_load (utf8_encode (cred_credentials cred)) = Inr (h, p, si, hmac (utf8_encode SECRET_KEY) si) \<and>
           json_lookup h ''alg'' = Some (JStr algorithm_hs256)"
proof -
  from assms obtain cred c where "http_bearer auth = Inr cred"
    "jwt_decode hmac (cred_credentials cred) SECRET_KEY now = Inr c"
    by (auto simp: users_me_def get_user_def split: sum.splits option.splits jwt_error.splits)
  then show ?thesis
    using jwt_decode_Inr by blast
qed

theorem accepted_token_is_authentic_witness:
  "\<exists>cred h p si.
     http_bearer (Some (''Bearer '' @ jws_sign toy_hmac [(''id'', JInt 1), (''username'', JStr ''fastcampus''),
        (''email'', JStr ''fastcampus@fastcampus.com''), (''exp'', JInt 1800)] SECRET_KEY)) = Inr cred \<and>
     jws_load (utf8_encode (cred_credentials cred)) = Inr (h, p, si, toy_hmac (utf8_encode SECRET_KEY) si) \<and>
     json_lookup h ''alg'' = Some (JStr algorithm_hs256)"
proof -
  have "users_me toy_hmac fake_user_db (Some (''Bearer '' @ jws_sign toy_hmac [(''id'', JInt 1),
      (''username'', JStr ''fastcampus''), (''email'', JStr ''fastcampus@fastcampus.com''),
      (''exp'', JInt 1800)] SECRET_KEY)) 0 = Inr (get_current_user (the (fake_user_db ''fastcampus'')))"
    by (simp add: users_me_access_token [OF refl, simplified] fake_user_db_def timegm_def)
  then show ?thesis
    by (rule accepted_token_is_authentic)
qed

text \<open>C4: a token signed with another key, whose MAC differs from the server's, is
  rejected; the rejection is an uncaught \<open>JWTError\<close>, that is a 500 answer.\<close>

theorem wrong_key_token_rejected:
  assumes "hmac (utf8_encode SECRET_KEY) (signing_input c) \<noteq> hmac (utf8_encode key) (signing_input c)"
  shows "users_me hmac db (Some (''Bearer '' @ jws_sign hmac c key)) now = Inl (Uncaught ''JWTError'')"
  using assms users_me_bearer [where t = "jws_sign hmac c key" and db = db and now = now, OF jws_sign_nonempty]
  by (simp add: jwt_decode_sign jwt_exception_def)

theorem wrong_key_token_rejected_witness:
  "users_me toy_hmac fake_user_db (Some (''Bearer '' @ jws_sign toy_hmac [] ''k'')) 0 = Inl (Uncaught ''JWTError'')"
proof -
  have "toy_hmac (utf8_encode SECRET_KEY) (signing_input []) \<noteq> toy_hmac (utf8_encode ''k'') (signing_input [])"
    by (simp add: toy_hmac_def SECRET_KEY_def)
  then show ?thesis
    by (rule wrong_key_token_rejected)
qed

text \<open>C5: round trip of the token codec as the code uses it: the token
  \<open>create_access_token\<close> makes decodes, under the server's key, to the user's id,
  username and email and the expiry second, until that second has passed.\<close>

theorem access_token_roundtrip:
  assumes "datetime_ok (now + default_ttl)"
  shows "\<exists>token. create_access_token hmac row None now = Inr token \<and>
           jwt_decode hmac token SECRET_KEY now' =
             (if timegm (now + default_ttl) < timegm now' then Inl SignatureExpired
              else Inr [(''id'', JInt (db_id row)), (''username'', JStr (db_username row)),
                        (''email'', JStr (db_email row)), (''exp'', JInt (timegm (now + default_ttl)))])"
proof -
  have "create_access_token hmac row None now =
      Inr (jws_sign hmac [(''id'', JInt (db_id row)), (''username'', JStr (db_username row)),
        (''email'', JStr (db_email row)), (''exp'', JInt (timegm (now + default_ttl)))] SECRET_KEY)"
    by (rule create_access_token_ok [OF assms]) simp
  then show ?thesis
    by (simp add: jwt_decode_sign validate_access_claims)
qed

theorem access_token_roundtrip_witness:
  "\<exists>token. create_access_token toy_hmac (the (fake_user_db ''fastcampus'')) None 0 = Inr token \<and>
     jwt_decode toy_hmac token SECRET_KEY 0 =
       Inr [(''id'', JInt 1), (''username'', JStr ''fastcampus''),
            (''email'', JStr ''fastcampus@fastcampus.com''), (''exp'', JInt 1800)]"
  using access_token_roundtrip [of 0 toy_hmac "the (fake_user_db ''fastcampus'')" 0]
  by (simp add: fake_user_db_def datetime_ok_def default_ttl_def usec_per_sec_def timegm_def)


text \<open>C6: the signature segment is malleable. For a MAC whose length leaves 2 modulo 3
  (HMAC-SHA256 gives 32 bytes) the last character of the segment carries two bits the
  decoder ignores, so a different token string is accepted exactly as the issued one,
  at every time.\<close>

theorem signature_malleable:
  assumes "length (hmac (utf8_encode SECRET_KEY) (signing_input c)) mod 3 = 2"
  shows "\<exists>t'. t' \<noteq> jws_sign hmac c SECRET_KEY \<and>
           (\<forall>now. users_me hmac db (Some (''Bearer '' @ t')) now =
                  users_me hmac db (Some (''Bearer '' @ jws_sign hmac c SECRET_KEY)) now)"
proof -
  obtain t' where t': "t' \<noteq> jws_sign hmac c SECRET_KEY" "t' \<noteq> []"
    "\<forall>k now. jwt_decode hmac t' k now = jwt_decode hmac (jws_sign hmac c SECRET_KEY) k now"
    using jwt_decode_malleable [where hmac = hmac and key = SECRET_KEY and c = c, OF assms] by blast
  have "users_me hmac db (Some (''Bearer '' @ t')) now =
      users_me hmac db (Some (''Bearer '' @ jws_sign hmac c SECRET_KEY)) now" for now
    by (simp only: users_me_bearer [OF t'(2)] users_me_bearer [OF jws_sign_nonempty] t'(3))
  with t'(1) show ?thesis
    by blast
qed

theorem signature_malleable_witness:
  "\<exists>t'. t' \<noteq> jws_sign toy_hmac [] SECRET_KEY \<and>
     (\<forall>now. users_me toy_hmac fake_user_db (Some (''Bearer '' @ t')) now =
            users_me toy_hmac fake_user_db (Some (''Bearer '' @ jws_sign toy_hmac [] SECRET_KEY)) now)"
  using signature_malleable [of toy_hmac "[]" fake_user_db]
  by (simp add: toy_hmac_def SECRET_KEY_def)

text \<open>C7: \<open>POST /login\<close> tells unknown users from wrong passwords: an unknown name
  raises \<open>KeyError\<close> (a 500 answer), a known name with a wrong password gets 401.\<close>

theorem login_unknown_user_vs_wrong_password:
  assumes "db u1 = None" "db u2 = Some r"
    and "checkpw hashpass (utf8_encode p2) (utf8_encode (db_password r)) = Inr False"
  shows "issue_token hmac hashpass db now u1 p1 = Inl (Uncaught ''KeyError'') \<and>
         issue_token hmac hashpass db now u2 p2 = Inl (HTTPException 401 None)"
  using assms by (simp add: issue_token_def)

theorem login_unknown_user_vs_wrong_password_witness:
  "issue_token toy_hmac toy_hashpass fake_user_db 0 ''nobody'' ''secret'' = Inl (Uncaught ''KeyError'') \<and>
   issue_token toy_hmac toy_hashpass fake_user_db 0 ''fastcampus'' ''wrong'' = Inl (HTTPException 401 None)"
proof -
  have "checkpw toy_hashpass (utf8_encode ''wrong'')
      (utf8_encode (db_password (the (fake_user_db ''fastcampus'')))) = Inr False"
    by (simp add: checkpw_def hashpw_def toy_hashpass_def fake_user_db_def normalize_salt_def
        bcrypt_prefix_2y_def)
  then show ?thesis
    using login_unknown_user_vs_wrong_password [of fake_user_db "''nobody''" "''fastcampus''"
        "the (fake_user_db ''fastcampus'')" toy_hashpass "''wrong''" toy_hmac 0 "''secret''"]
    by (simp add: fake_user_db_def)
qed


text \<open>The token of the specification's malformed-token scenario: its header segment
  \<open>not\<close> decodes to two bytes that are not UTF-8.\<close>

lemma load_not_a_token: "jws_load (utf8_encode ''not.a.token'') = Inl InvalidHeaderString"
  by code_simp

text \<open>C8: of all the ways \<open>jwt.decode\<close> can refuse a token, only expiry is
  answered as an authentication failure: a malformed token, a bad signature, a
  refused algorithm or bad claims leave \<open>get_user\<close> as an uncaught exception, that
  is a 500 answer.\<close>

theorem decode_errors_uncaught:
  assumes "t \<noteq> []" "jwt_decode hmac t SECRET_KEY now = Inl e" "e \<noteq> SignatureExpired"
  shows "users_me hmac db (Some (''Bearer '' @ t)) now = Inl (Uncaught (jwt_exception e)) \<and>
         status_code (Uncaught (jwt_exception e)) = 500"
  using users_me_bearer [OF assms(1), of hmac db now] assms(2,3)
  by (cases e) (simp_all add: status_code_def)

theorem decode_errors_uncaught_witness:
  "users_me toy_hmac fake_user_db (Some (''Bearer '' @ ''not.a.token'')) 0 = Inl (Uncaught ''JWTError'') \<and>
   status_code (Uncaught ''JWTError'') = 500"
  using decode_errors_uncaught [of "''not.a.token''" toy_hmac 0 InvalidHeaderString fake_user_db]
    load_not_a_token
  by (simp add: jwt_decode_def jws_verify_def jwt_exception_def)

text \<open>C9: the claims of an issued token are exactly \<open>id\<close>, \<open>username\<close>, \<open>email\<close>
  and \<open>exp\<close>, in this order: the password hash of the row is not put in the token.\<close>

theorem issued_token_claims:
  assumes "issue_token hmac hashpass db now uname pw = Inr token"
  shows "\<exists>c. token = jws_sign hmac c SECRET_KEY \<and> map fst c = [''id'', ''username'', ''email'', ''exp'']"
  using issue_token_Inr [OF assms] by auto

theorem issued_token_claims_witness:
  "\<exists>c. jws_sign toy_hmac [(''id'', JInt 1), (''username'', JStr ''fastcampus''),
         (''email'', JStr ''fastcampus@fastcampus.com''), (''exp'', JInt 1800)] SECRET_KEY =
       jws_sign toy_hmac c SECRET_KEY \<and> map fst c = [''id'', ''username'', ''email'', ''exp'']"
proof -
  from toy_login show ?thesis
    by (rule issued_token_claims)
qed

text \<open>C10: without an \<open>Authorization\<close> header, or with any scheme other than
  \<open>bearer\<close> (in any case), \<open>GET /users/me\<close> is answered 403 by the
  \<open>HTTPBearer\<close> dependency before any token is looked at.\<close>

theorem bearer_header_required:
  assumes "scheme \<noteq> []" "CHR '' '' \<notin> set scheme" "py_lower scheme \<noteq> ''bearer''" "t \<noteq> []"
  shows "users_me hmac db None now = Inl (HTTPException 403 (Some ''Not authenticated'')) \<and>
         users_me hmac db (Some (scheme @ CHR '' '' # t)) now =
           Inl (HTTPException 403 (Some ''Invalid authentication credentials''))"
proof -
  have "get_authorization_scheme_param (Some (scheme @ CHR '' '' # t)) = (scheme, t)"
    using assms(2) by (simp add: get_authorization_scheme_param_def str_partition_def)
  then show ?thesis
    using assms by (simp add: users_me_def http_bearer_missing http_bearer_def py_truthy_str_def)
qed

theorem bearer_header_required_witness:
  "users_me toy_hmac fake_user_db None 0 = Inl (HTTPException 403 (Some ''Not authenticated'')) \<and>
   users_me toy_hmac fake_user_db (Some (''basic'' @ CHR '' '' # ''dXNlcjpwYXNz'')) 0 =
     Inl (HTTPException 403 (Some ''Invalid authentication credentials''))"
  using bearer_header_required [of "''basic''" "''dXNlcjpwYXNz''" toy_hmac fake_user_db 0]
  by (simp add: py_lower_def py_lower_char_def)

text \<open>C11: \<open>POST /login\<close> sees only the first 72 bytes of a password: two NUL-free
  passwords that agree on them give the same answer, token included.\<close>

theorem login_password_truncated:
  assumes "0 \<notin> set (utf8_encode pw1)" "0 \<notin> set (utf8_encode pw2)"
    and "take 72 (utf8_encode pw1) = take 72 (utf8_encode pw2)"
  shows "issue_token hmac hashpass db now uname pw1 = issue_token hmac hashpass db now uname pw2"
  using checkpw_take_72 [OF assms] by (simp add: issue_token_def split: option.split)

theorem login_password_truncated_witness:
  "issue_token toy_hmac toy_hashpass fake_user_db 0 ''fastcampus''
     ''aaaaaaaaaaaaaaaaaaaaaaaaaaaaaaaaaaaaaaaaaaaaaaaaaaaaaaaaaaaaaaaaaaaaaaaax'' =
   issue_token toy_hmac toy_hashpass fake_user_db 0 ''fastcampus''
     ''aaaaaaaaaaaaaaaaaaaaaaaaaaaaaaaaaaaaaaaaaaaaaaaaaaaaaaaaaaaaaaaaaaaaaaaa''"
  by (rule login_password_truncated) simp_all

text \<open>C12: a token signed with the server's key whose claims carry no \<open>exp\<close> is
  accepted at every time: nothing requires the expiry claim.\<close>

theorem token_without_exp_never_expires:
  assumes "db u = Some r"
  shows "users_me hmac db (Some (''Bearer '' @ jws_sign hmac [(''id'', JInt i), (''username'', JStr u),
           (''email'', JStr e)] SECRET_KEY)) now = Inr (get_current_user r)"
  using assms users_me_bearer [where t = "jws_sign hmac [(''id'', JInt i), (''username'', JStr u),
           (''email'', JStr e)] SECRET_KEY" and db = db and now = now, OF jws_sign_nonempty]
  by (simp add: jwt_decode_sign validate_claims_def claim_int_def claim_str_def seq_check_def
      json_lookup_def user_of_claims_def pyd_int_def pyd_str_def)

theorem token_without_exp_never_expires_witness:
  "users_me toy_hmac fake_user_db (Some (''Bearer '' @ jws_sign toy_hmac [(''id'', JInt 1),
     (''username'', JStr ''fastcampus''), (''email'', JStr ''fastcampus@fastcampus.com'')] SECRET_KEY))
     4000000000000000 =
   Inr (get_current_user (the (fake_user_db ''fastcampus'')))"
  using token_without_exp_never_expires [of fake_user_db "''fastcampus''" "the (fake_user_db ''fastcampus'')"]
  by (simp add: fake_user_db_def)


section \<open>Items\<close>

text \<open>C13: the routes \<open>/items/func\<close>, \<open>/items/class\<close> and \<open>/items/func/sub\<close>, which
  read their parameters through a function, a class and a nested dependency, answer
  every query string alike.\<close>

theorem items_routes_agree:
  "route_items_func qs = route_items_class qs \<and> route_items_func_sub qs = route_items_class qs"
  by (simp add: route_items_func_def route_items_class_def route_items_func_sub_def
      get_items_with_func_def get_items_with_class_def get_items_with_func_sub_def
      func_params_def ClassParams_def func_params_with_sub_def get_q_def split: sum.split)

text \<open>C14: for non-negative \<open>offset\<close> and \<open>limit\<close>, \<open>/items/class\<close> implements the
  pagination specification: skip \<open>offset\<close> items, give at most \<open>limit\<close>, and echo a
  non-empty \<open>q\<close>.\<close>

theorem items_page_refinement:
  assumes "qs ''offset'' = Some (str_of_int o')" "qs ''limit'' = Some (str_of_int l)"
    and "0 \<le> o'" "0 \<le> l"
  shows "route_items_class qs =
           Inr \<lparr>resp_q = (if py_truthy_str (qs ''q'') then qs ''q'' else None),
                resp_items = items_page o' l\<rparr>"
proof -
  have "resp_items (get_items_with_class (ClassParams (qs ''q'') o' l)) = items_page o' l"
    using assms(3,4) get_items_with_class_page [of "ClassParams (qs ''q'') o' l"]
    by (simp add: ClassParams_def)
  then show ?thesis
    using route_items_class_Inr [OF query_int_str [of qs "''offset''", OF assms(1)]
        query_int_str [of qs "''limit''", OF assms(2)]]
    by (simp add: get_items_with_class_def ClassParams_def Let_def)
qed

theorem items_page_refinement_witness:
  "route_items_class [''offset'' \<mapsto> str_of_int 1, ''limit'' \<mapsto> str_of_int 1] =
     Inr \<lparr>resp_q = None, resp_items = [[(''name'', ''Bar'')]]\<rparr>"
  using items_page_refinement [of "[''offset'' \<mapsto> str_of_int 1, ''limit'' \<mapsto> str_of_int 1]" 1 1]
  by (simp add: items_page_def items_def py_truthy_str_def)

text \<open>C15: a negative \<open>limit\<close> is not refused: with offset 0, Python counts the
  slice's end from the back, so \<open>/items/class\<close> answers all but the last
  \<open>-limit\<close> items (none only once \<open>-limit\<close> reaches the length).\<close>

theorem items_negative_limit:
  assumes "query_int qs ''offset'' 0 = Inr 0" "query_int qs ''limit'' 100 = Inr l" "l < 0"
  shows "route_items_class qs =
           Inr \<lparr>resp_q = (if py_truthy_str (qs ''q'') then qs ''q'' else None),
                resp_items = take (nat (int (length items) + l)) items\<rparr>"
  using route_items_class_Inr [OF assms(1,2)] assms(3)
  by (simp add: get_items_with_class_def ClassParams_def py_slice_def py_slice_index_def Let_def
      max_def add.commute)

theorem items_negative_limit_witness:
  "route_items_class [''limit'' \<mapsto> ''-1''] =
     Inr \<lparr>resp_q = None, resp_items = [[(''name'', ''Foo'')], [(''name'', ''Bar'')]]\<rparr>"
proof -
  have "query_int [''limit'' \<mapsto> ''-1''] ''offset'' 0 = Inr 0"
    by (simp add: query_int_def)
  moreover have "query_int [''limit'' \<mapsto> ''-1''] ''limit'' 100 = Inr (-1)"
    by code_simp
  ultimately show ?thesis
    using items_negative_limit [of "[''limit'' \<mapsto> ''-1'']" "-1"]
    by (simp add: items_def py_truthy_str_def)
qed

text \<open>C16: \<open>/items/pydantic\<close> answers as \<open>/items/class\<close> when \<open>q\<close> (if given) has
  two characters, \<open>offset \<ge> 0\<close> and \<open>limit > 0\<close>; otherwise the model's
  \<open>ValidationError\<close> escapes the dependency and the answer is 500, not 422.\<close>

theorem items_pydantic_validation:
  assumes "query_int qs ''offset'' 0 = Inr o'" "query_int qs ''limit'' 100 = Inr l"
  shows "route_items_pydantic qs =
           (if (case qs ''q'' of None \<Rightarrow> False | Some s \<Rightarrow> length s < 2) \<or> o' < 0 \<or> l \<le> 0
            then Inl (Uncaught ''ValidationError'') else route_items_class qs)"
  using assms
  by (simp add: route_items_pydantic_def route_items_class_def PydanticParams_def ClassParams_def
      get_items_with_pydantic_def get_items_with_class_def)

theorem items_pydantic_validation_witness:
  "route_items_pydantic [''q'' \<mapsto> ''a''] = Inl (Uncaught ''ValidationError'')"
  using items_pydantic_validation [of "[''q'' \<mapsto> ''a'']" 0 100]
  by (simp add: query_int_def)

text \<open>C17: an answer of \<open>/items/class\<close> has at most three items whatever the
  parameters, and for a non-negative \<open>limit\<close> at most \<open>limit\<close>, whatever the
  offset.\<close>

theorem items_length_bound:
  assumes "route_items_class qs = Inr r" "query_int qs ''limit'' 100 = Inr l"
  shows "length (resp_items r) \<le> 3 \<and> (0 \<le> l \<longrightarrow> length (resp_items r) \<le> nat l)"
proof -
  obtain o' where o': "query_int qs ''offset'' 0 = Inr o'"
    using assms(1) by (auto simp: route_items_class_def split: sum.splits)
  then have r: "r = get_items_with_class (ClassParams (qs ''q'') o' l)"
    using assms(1,2) route_items_class_Inr by simp
  show ?thesis
    using length_get_items_with_class [of "ClassParams (qs ''q'') o' l"]
    by (simp add: r ClassParams_def items_def)
qed

theorem items_length_bound_witness:
  "length (resp_items (get_items_with_class (ClassParams None (-1) 2))) \<le> 3 \<and>
   length (resp_items (get_items_with_class (ClassParams None (-1) 2))) \<le> nat 2"
proof -
  have "route_items_class [''offset'' \<mapsto> ''-1'', ''limit'' \<mapsto> ''2''] =
      Inr (get_items_with_class (ClassParams None (-1) 2))"
    by code_simp
  moreover have "query_int [''offset'' \<mapsto> ''-1'', ''limit'' \<mapsto> ''2''] ''limit'' 100 = Inr 2"
    by code_simp
  ultimately show ?thesis
    using items_length_bound [of "[''offset'' \<mapsto> ''-1'', ''limit'' \<mapsto> ''2'']"] by simp
qed


section \<open>Users by id and files\<close>

text \<open>C18: \<open>GET /users/{user_id}\<close> for an id that is not a key of \<open>users\<close> answers 404,
  and the detail names the id: the text between \<open><User: \<close> and \<open>> is not exists.\<close>
  reads back as the requested id.\<close>

theorem user_not_found_detail:
  assumes "n \<notin> dom users"
  shows "\<exists>d. route_get_user_by_id (str_of_int n) = Inl (HTTPException 404 (Some d)) \<and>
           py_int_of_str (take (length d - 23) (drop 7 d)) = Some n"
  using assms
  by (simp add: route_get_user_by_id_def py_int_of_str_of_int get_user_by_id_missing)

theorem user_not_found_detail_witness:
  "\<exists>d. route_get_user_by_id (str_of_int 4) = Inl (HTTPException 404 (Some d)) \<and>
     py_int_of_str (take (length d - 23) (drop 7 d)) = Some 4"
  using user_not_found_detail [of 4] by (simp add: users_def)

text \<open>C19: while one of the candidate names is free, \<open>POST /file/store\<close> stores the
  upload under a fresh path, answers that path, and leaves every other file as it was.\<close>

theorem store_file_stores:
  assumes "\<exists>n\<in>set (take tmp_max names). n \<notin> dom fs"
  shows "\<exists>fs' p. store_file names fs u = Inr (fs', [(''filepath'', FStr p)]) \<and>
           fs' p = Some (content u) \<and> p \<notin> dom fs \<and> (\<forall>p'. p' \<noteq> p \<longrightarrow> fs' p' = fs p')"
proof -
  obtain p where "find (\<lambda>n. n \<notin> dom fs) (take tmp_max names) = Some p"
    using assms by (cases "find (\<lambda>n. n \<notin> dom fs) (take tmp_max names)") (auto simp: find_None_iff)
  then have "save_file names fs (content u) = Inr (fs(p \<mapsto> content u), p)"
    by (simp add: save_file_def)
  then show ?thesis
    using save_file_Inr(1) by (auto simp: store_file_def)
qed

theorem store_file_stores_witness:
  "\<exists>fs' p. store_file [''/tmp/tmpa''] Map.empty \<lparr>content_type = None, filename = None, content = [1, 2]\<rparr> =
       Inr (fs', [(''filepath'', FStr p)]) \<and>
     fs' p = Some [1, 2] \<and> p \<notin> dom (Map.empty :: files) \<and> (\<forall>p'. p' \<noteq> p \<longrightarrow> fs' p' = None)"
  using store_file_stores [of "[''/tmp/tmpa'']" "Map.empty :: files"
      "\<lparr>content_type = None, filename = None, content = [1, 2]\<rparr>"]
  by (simp add: tmp_max_def)

text \<open>C20: over any sequence of \<open>POST /file/store\<close> requests, the paths answered are
  distinct and were free before, each holds the content of its own upload at the end,
  and no other file changes.\<close>

theorem store_seq_invariant:
  assumes "store_seq rs fs = Inr (fs', bodies)"
  shows "\<exists>ps. bodies = map (\<lambda>p. [(''filepath'', FStr p)]) ps \<and> distinct ps \<and> set ps \<inter> dom fs = {} \<and>
           (\<forall>i<length rs. fs' (ps ! i) = Some (content (snd (rs ! i)))) \<and>
           (\<forall>p. p \<notin> set ps \<longrightarrow> fs' p = fs p)"
  using assms
proof (induction rs fs arbitrary: fs' bodies rule: store_seq.induct)
  case (1 fs)
  then show ?case by simp
next
  case (2 ns u rs fs)
  obtain f1 body bs where f1: "store_file ns fs u = Inr (f1, body)" "store_seq rs f1 = Inr (fs', bs)"
    "bodies = body # bs"
    using "2.prems" by (auto split: sum.splits)
  obtain p where p: "body = [(''filepath'', FStr p)]" "p \<notin> dom fs" "f1 = fs(p \<mapsto> content u)"
    using store_file_Inr [OF f1(1)] by blast
  obtain ps where ps: "bs = map (\<lambda>p. [(''filepath'', FStr p)]) ps" "distinct ps" "set ps \<inter> dom f1 = {}"
    "\<forall>i<length rs. fs' (ps ! i) = Some (content (snd (rs ! i)))" "\<forall>x. x \<notin> set ps \<longrightarrow> fs' x = f1 x"
    using "2.IH" [OF f1(1) [symmetric, THEN sym] _ f1(2)] f1(1) by blast
  have "p \<notin> set ps"
    using ps(3) p(3) by auto
  then have "\<forall>i<length ((ns, u) # rs). fs' ((p # ps) ! i) = Some (content (snd (((ns, u) # rs) ! i)))"
    using ps(4,5) p(3) by (auto simp: nth_Cons split: nat.split)
  with \<open>p \<notin> set ps\<close> show ?case
    using p ps f1(3) by (intro exI [of _ "p # ps"]) auto
qed

theorem store_seq_invariant_witness:
  "\<exists>ps. [[(''filepath'', FStr ''a'')], [(''filepath'', FStr ''b'')]] = map (\<lambda>p. [(''filepath'', FStr p)]) ps \<and>
     distinct ps \<and> set ps \<inter> dom (Map.empty :: files) = {} \<and>
     (\<forall>i<length [([''a''], \<lparr>content_type = None, filename = None, content = [1]\<rparr>),
                 ([''a'', ''b''], \<lparr>content_type = None, filename = None, content = [2]\<rparr>)].
        [''a'' \<mapsto> [1], ''b'' \<mapsto> [2]] (ps ! i) =
          Some (content (snd ([([''a''], \<lparr>content_type = None, filename = None, content = [1]\<rparr>),
                 ([''a'', ''b''], \<lparr>content_type = None, filename = None, content = [2]\<rparr>)] ! i)))) \<and>
     (\<forall>p. p \<notin> set ps \<longrightarrow> [''a'' \<mapsto> [1 :: byte], ''b'' \<mapsto> [2]] p = (Map.empty :: files) p)"
  by (rule store_seq_invariant)
     (simp add: store_file_def save_file_def tmp_max_def fun_eq_iff)


section \<open>Users in the database\<close>

text \<open>C21: one \<open>POST /users\<close> at a time keeps the table well formed (distinct ids
  below the counter) and its addresses distinct; a created user is appended to what
  \<open>GET /users\<close> lists, with the address asked for.\<close>

theorem create_user_invariant:
  assumes "table_ok t" "distinct (emails t)" "create_user uq t e pw = Inr (t', u)"
  shows "table_ok t' \<and> distinct (emails t') \<and> read_users t' = read_users t @ [u] \<and> uemail u = e"
proof -
  have new: "e \<notin> set (emails t)" and ins: "insert_user uq t e pw = Inr (t', u)"
    using assms(3) by (auto simp: create_user_def query_email_None split: option.splits)
  have "rows t' = rows t @ [u]" "uemail u = e"
    using insert_user_Inr [OF ins] by simp_all
  then show ?thesis
    using insert_user_table_ok [OF ins assms(1)] assms(2) new by (simp add: emails_def read_users_def)
qed

theorem create_user_invariant_witness:
  "table_ok \<lparr>rows = [\<lparr>uid = 1, uemail = ''a@b'', upassword = ''pw''\<rparr>], next_id = 2\<rparr> \<and>
   distinct (emails \<lparr>rows = [\<lparr>uid = 1, uemail = ''a@b'', upassword = ''pw''\<rparr>], next_id = 2\<rparr>) \<and>
   read_users \<lparr>rows = [\<lparr>uid = 1, uemail = ''a@b'', upassword = ''pw''\<rparr>], next_id = 2\<rparr> =
     read_users \<lparr>rows = [], next_id = 1\<rparr> @ [\<lparr>uid = 1, uemail = ''a@b'', upassword = ''pw''\<rparr>] \<and>
   uemail \<lparr>uid = 1, uemail = ''a@b'', upassword = ''pw''\<rparr> = ''a@b''"
  by (rule create_user_invariant [of "\<lparr>rows = [], next_id = 1\<rparr>" False "''a@b''" "''pw''"])
     (simp_all add: table_ok_def emails_def create_user_def query_email_def insert_user_def Let_def)

text \<open>C22: the e-mail check and the insert are separate steps, so two requests for the
  same new address can both pass the check. Then neither is answered 400: without a
  unique constraint both rows are stored, with one the second insert fails with
  \<open>IntegrityError\<close> and is answered 500.\<close>

theorem create_user_race:
  assumes "e \<notin> set (emails t)"
  shows "\<exists>s'. (cu_step uq)\<^sup>*\<^sup>* \<lparr>tbl = t, reqs = [(e, p1, Start), (e, p2, Start)]\<rparr> s' \<and>
           map (\<lambda>r. snd (snd r)) (reqs s') = [Answered 200, Answered (if uq then 500 else 200)] \<and>
           count_list (emails (tbl s')) e = (if uq then 1 else 2)"
proof -
  define u1 where "u1 = \<lparr>uid = next_id t, uemail = e, upassword = p1\<rparr>"
  define t1 where "t1 = \<lparr>rows = rows t @ [u1], next_id = Suc (next_id t)\<rparr>"
  have none: "query_email t e = None"
    using assms by (simp add: query_email_None)
  have e1: "emails t1 = emails t @ [e]"
    by (simp add: emails_def t1_def u1_def)
  have "cu_step uq \<lparr>tbl = t, reqs = [(e, p1, Start), (e, p2, Start)]\<rparr>
                    \<lparr>tbl = t, reqs = [(e, p1, Checked), (e, p2, Start)]\<rparr>"
    using cu_step.query_none [of 0 "\<lparr>tbl = t, reqs = [(e, p1, Start), (e, p2, Start)]\<rparr>" e p1 uq] none
    by simp
  moreover have "cu_step uq \<lparr>tbl = t, reqs = [(e, p1, Checked), (e, p2, Start)]\<rparr>
                    \<lparr>tbl = t, reqs = [(e, p1, Checked), (e, p2, Checked)]\<rparr>"
    using cu_step.query_none [of 1 "\<lparr>tbl = t, reqs = [(e, p1, Checked), (e, p2, Start)]\<rparr>" e p2 uq] none
    by simp
  moreover have "cu_step uq \<lparr>tbl = t, reqs = [(e, p1, Checked), (e, p2, Checked)]\<rparr>
                    \<lparr>tbl = t1, reqs = [(e, p1, Answered 200), (e, p2, Checked)]\<rparr>"
    using cu_step.insert_ok [of 0 "\<lparr>tbl = t, reqs = [(e, p1, Checked), (e, p2, Checked)]\<rparr>" e p1 uq t1 u1]
      assms by (simp add: insert_user_def t1_def u1_def Let_def)
  ultimately have reach: "(cu_step uq)\<^sup>*\<^sup>* \<lparr>tbl = t, reqs = [(e, p1, Start), (e, p2, Start)]\<rparr>
                    \<lparr>tbl = t1, reqs = [(e, p1, Answered 200), (e, p2, Checked)]\<rparr>"
    by (meson rtranclp.rtrancl_into_rtrancl rtranclp.rtrancl_refl)
  show ?thesis
  proof (cases uq)
    case True
    then have "cu_step uq \<lparr>tbl = t1, reqs = [(e, p1, Answered 200), (e, p2, Checked)]\<rparr>
                 \<lparr>tbl = t1, reqs = [(e, p1, Answered 200), (e, p2, Answered 500)]\<rparr>"
      using cu_step.insert_fail [of 1 "\<lparr>tbl = t1, reqs = [(e, p1, Answered 200), (e, p2, Checked)]\<rparr>"
          e p2 uq "Uncaught ''IntegrityError''"] e1
      by (simp add: insert_user_def status_code_def)
    with reach True e1 assms show ?thesis
      by (intro exI [of _ "\<lparr>tbl = t1, reqs = [(e, p1, Answered 200), (e, p2, Answered 500)]\<rparr>"])
         (simp add: count_list_0_iff)
  next
    case False
    define t2 where "t2 = \<lparr>rows = rows t1 @ [\<lparr>uid = next_id t1, uemail = e, upassword = p2\<rparr>],
                            next_id = Suc (next_id t1)\<rparr>"
    have "cu_step uq \<lparr>tbl = t1, reqs = [(e, p1, Answered 200), (e, p2, Checked)]\<rparr>
                 \<lparr>tbl = t2, reqs = [(e, p1, Answered 200), (e, p2, Answered 200)]\<rparr>"
      using cu_step.insert_ok [of 1 "\<lparr>tbl = t1, reqs = [(e, p1, Answered 200), (e, p2, Checked)]\<rparr>"
          e p2 uq t2] False by (simp add: insert_user_def t2_def Let_def)
    moreover have "emails t2 = emails t @ [e, e]"
      using e1 by (simp add: emails_def t2_def)
    ultimately show ?thesis
      using reach False assms
      by (intro exI [of _ "\<lparr>tbl = t2, reqs = [(e, p1, Answered 200), (e, p2, Answered 200)]\<rparr>"])
         (simp add: count_list_0_iff)
  qed
qed

theorem create_user_race_witness:
  "\<exists>s'. (cu_step False)\<^sup>*\<^sup>* \<lparr>tbl = \<lparr>rows = [], next_id = 1\<rparr>, reqs = [(''a@b'', ''x'', Start), (''a@b'', ''y'', Start)]\<rparr> s' \<and>
     map (\<lambda>r. snd (snd r)) (reqs s') = [Answered 200, Answered 200] \<and>
     count_list (emails (tbl s')) ''a@b'' = 2"
  using create_user_race [of "''a@b''" "\<lparr>rows = [], next_id = 1\<rparr>" False "''x''" "''y''"]
  by (simp add: emails_def)

end
